theory Spec2Isabelle
  imports Main "HOL-Library.Sublist"
begin

section \<open>Data model (api/v1alpha1)\<close>

text \<open>
  The two custom resources of the operator, as the Go structs declare them.  A pointer
  field that may be nil is an \<open>option\<close>; Go's \<open>int\<close> and \<open>int64\<close> are \<open>int\<close> (no
  arithmetic is done on them); a \<open>string\<close> is a \<open>string\<close>.  Of \<open>metav1.Condition\<close> the
  four fields the code sets are kept; its timestamps are not modelled.
\<close>

datatype ConditionStatus = ConditionTrue | ConditionFalse | ConditionUnknown

record Condition =
  cond_Type :: string
  cond_Status :: ConditionStatus
  cond_Reason :: string
  cond_Message :: string

record CopyOperationT =
  op_Name :: string
  op_Source :: string
  op_Target :: string

record PromotionSpec =
  SourceEnvironmentRef :: "string option"
  TargetEnvironmentRef :: "string option"
  Copy :: "CopyOperationT list"
  Strategy :: string

record PromotionStatus =
  ObservedGeneration :: int
  Conditions :: "Condition list"
  LastPullRequestURL :: string
  LastPullRequestNumber :: int

record Promotion =
  Name :: string
  Namespace :: string
  Generation :: int
  Spec :: PromotionSpec
  Status :: PromotionStatus

record GitRepositoryRef =
  Branch :: string

record GitSource =
  URL :: string
  Reference :: "GitRepositoryRef option"
  SecretRef :: "string option"

record EnvironmentSpec =
  Path :: string
  Source :: GitSource
  ApiTokenSecretRef :: "string option"
  GitProvider :: string

record EnvironmentStatus =
  env_ObservedGeneration :: int
  env_Conditions :: "Condition list"
  ObservedCommitHash :: string

record Environment =
  env_Name :: string
  env_Namespace :: string
  env_Spec :: EnvironmentSpec
  env_Status :: EnvironmentStatus

definition GitProviderGitHub :: string where
  "GitProviderGitHub = ''github''"

definition DefaultBranch :: string where
  "DefaultBranch = ''master''"

text \<open>
  Modelled from the spec: the constants \<open>ReadyCondition\<close> and \<open>SucceededReason\<close> are
  declared in a file of package v1alpha1 that is not among the sources; the spec calls
  them the readiness condition and its reason.  No theorem below depends on their values.
\<close>

definition ReadyCondition :: string where
  "ReadyCondition = ''Ready''"

definition SucceededReason :: string where
  "SucceededReason = ''Succeeded''"

text \<open>
  \<open>meta.FindStatusCondition\<close> and \<open>meta.SetStatusCondition\<close> of apimachinery: the first
  condition of the given type, and its replacement (or the new condition appended).
\<close>

fun FindStatusCondition :: "Condition list \<Rightarrow> string \<Rightarrow> Condition option" where
  "FindStatusCondition [] t = None"
| "FindStatusCondition (c # cs) t = (if cond_Type c = t then Some c else FindStatusCondition cs t)"

fun SetStatusCondition :: "Condition list \<Rightarrow> Condition \<Rightarrow> Condition list" where
  "SetStatusCondition [] n = [n]"
| "SetStatusCondition (c # cs) n =
     (if cond_Type c = cond_Type n then n # cs else c # SetStatusCondition cs n)"

definition PromotionReady :: "Promotion \<Rightarrow> string \<Rightarrow> string \<Rightarrow> Promotion" where
  "PromotionReady promotion reason message =
     promotion\<lparr>Status := (Status promotion)\<lparr>Conditions :=
       SetStatusCondition (Conditions (Status promotion))
         \<lparr>cond_Type = ReadyCondition, cond_Status = ConditionTrue,
          cond_Reason = reason, cond_Message = message\<rparr>\<rparr>\<rparr>"

definition PromotionNotReady :: "Promotion \<Rightarrow> string \<Rightarrow> string \<Rightarrow> Promotion" where
  "PromotionNotReady promotion reason message =
     promotion\<lparr>Status := (Status promotion)\<lparr>Conditions :=
       SetStatusCondition (Conditions (Status promotion))
         \<lparr>cond_Type = ReadyCondition, cond_Status = ConditionFalse,
          cond_Reason = reason, cond_Message = message\<rparr>\<rparr>\<rparr>"

definition PromotionReadyMessage :: "Promotion \<Rightarrow> string" where
  "PromotionReadyMessage promotion =
     (case FindStatusCondition (Conditions (Status promotion)) ReadyCondition of
        Some c \<Rightarrow> (if cond_Status c = ConditionTrue then cond_Message c else [])
      | None \<Rightarrow> [])"

definition IsReady :: "Environment \<Rightarrow> bool" where
  "IsReady e =
     (case FindStatusCondition (env_Conditions (env_Status e)) ReadyCondition of
        Some c \<Rightarrow> cond_Status c = ConditionTrue
      | None \<Rightarrow> False)"

definition GetBranch :: "Environment \<Rightarrow> string" where
  "GetBranch e =
     (case Reference (Source (env_Spec e)) of Some r \<Rightarrow> Branch r | None \<Rightarrow> DefaultBranch)"

section \<open>Errors, the local filesystem, and the collaborators\<close>

text \<open>
  A Go error value, or a runtime panic (\<open>NilDereference\<close>), is a value of \<open>error\<close>.
  \<open>NotFound\<close> is the resource store's not-found error, which \<open>client.IgnoreNotFound\<close>
  turns into nil; \<open>Failed\<close> stands for any other error a collaborator returns.
\<close>

type_synonym path = "string list"

datatype error =
    NotFound
  | Failed string
  | SourceMissing path
  | ENOENT path
  | ENOTDIR path
  | EISDIR path
  | NilDereference

definition IgnoreNotFound :: "error \<Rightarrow> error option" where
  "IgnoreNotFound e = (if e = NotFound then None else Some e)"

text \<open>
  A path is its list of components below the filesystem root; the filesystem maps a path
  to a file with its content or to a directory.  Symbolic links are not modelled.
\<close>

datatype node = File string | Dir

type_synonym fs = "path \<Rightarrow> node option"

text \<open>
  An SSH auth handle (\<open>gogitssh.PublicKeys\<close>) with its host-key callback: the code only
  ever builds the one that accepts any host key.
\<close>

datatype HostKeyCallback = InsecureIgnoreHostKey | VerifyKnownHosts

record PublicKeys =
  User :: string
  Signer :: string
  HostKeyCallback :: HostKeyCallback

record PullRequest =
  Number :: int
  WebURL :: string
  SourceBranch :: string

datatype ProviderClient = GitHubClient string

text \<open>
  Calls of go-git whose only modelled outcome is success or failure are named by their
  call site; \<open>fault\<close> of the world says which of them fail.  The number is the index of
  the copy operation in whose iteration the call is made.
\<close>

datatype site =
    Worktree_source | Worktree_target | Head_source | CommitObject_source
  | Fetch_target | Checkout_pull_request | Checkout_new_branch
  | Head_before | AddGlob_at nat | Push_at nat | Head_after

text \<open>
  What the reconciler does to the world outside its own memory, in the order it does it.
  A call is recorded when it is made, whether or not it then fails; a temporary directory
  is recorded once it exists.  \<open>GitCheckout\<close> carries the reference name and the options
  \<open>Create\<close> and \<open>Force\<close>; \<open>PRCreate\<close> the title, the head branch, the base branch and the
  body.
\<close>

datatype event =
    MkTempDir path
  | Clone path string string "PublicKeys option"
  | ProviderRepoGet string
  | PRList
  | PRGet int
  | PRCreate string string string string
  | PREdit int string
  | GitFetch string
  | GitCheckout string bool bool
  | CopyOp path path
  | WtStatus
  | WtAddGlob
  | WtCommit string
  | GitPush string
  | RemoveAll path
  | StatusUpdate Promotion

text \<open>
  The collaborators the spec treats as black boxes (resource store, secret store, git
  plumbing, provider API, clock), as the answers they give.  Every theorem below that is
  stated for all worlds therefore holds whatever these collaborators answer.
  \<^item> \<open>kube_promotion\<close>, \<open>kube_environment\<close>, \<open>kube_secret\<close>: what \<open>Get\<close> returns for the
    Promotion, for an Environment by name, and for a Secret by name (its \<open>Data\<close>, a missing
    key giving the empty string);
  \<^item> \<open>temp_dir n\<close>: the directory the \<open>n\<close>-th call of \<open>TempDirForObj\<close> creates;
  \<^item> \<open>PlainClone dir url branch auth fs\<close>: the filesystem after the clone, and the hex hash
    of the HEAD commit;
  \<^item> \<open>branch_head b\<close> and \<open>checkout_files b fs\<close>: the hash of branch \<open>b\<close> after the fetch,
    and the filesystem after its forced checkout;
  \<^item> \<open>Worktree_Status i\<close>: whether the status taken after the \<open>i\<close>-th copy operation
    \<open>IsClean\<close>; \<open>Worktree_Commit i\<close>: the hash of the commit made there;
  \<^item> \<open>lstat_fault root path\<close>: the error \<open>SecureJoin\<close> meets when it inspects a component;
  \<^item> \<open>now_formatted\<close>: \<open>time.Now()\<close> in the layout \<open>2006-01-02-15-04-05\<close>.
\<close>

record world =
  kube_promotion :: "error + Promotion"
  kube_environment :: "string \<Rightarrow> error + Environment"
  kube_secret :: "string \<Rightarrow> error + (string \<Rightarrow> string)"
  ParsePrivateKey :: "string \<Rightarrow> error + string"
  temp_dir :: "nat \<Rightarrow> error + path"
  PlainClone :: "path \<Rightarrow> string \<Rightarrow> string \<Rightarrow> PublicKeys option \<Rightarrow> fs \<Rightarrow> error + fs \<times> string"
  github_NewClient :: "string \<Rightarrow> error + ProviderClient"
  ParseOrgRepositoryURL :: "string \<Rightarrow> error + string"
  OrgRepositories_Get :: "ProviderClient \<Rightarrow> string \<Rightarrow> error + string"
  PullRequests_List :: "error + PullRequest list"
  PullRequests_Get :: "int \<Rightarrow> error + PullRequest"
  PullRequests_Create :: "string \<Rightarrow> string \<Rightarrow> string \<Rightarrow> string \<Rightarrow> error + PullRequest"
  PullRequests_Edit :: "int \<Rightarrow> string \<Rightarrow> error + PullRequest"
  fault :: "site \<Rightarrow> error option"
  branch_head :: "string \<Rightarrow> string"
  checkout_files :: "string \<Rightarrow> fs \<Rightarrow> fs"
  Worktree_Status :: "nat \<Rightarrow> error + bool"
  Worktree_Commit :: "nat \<Rightarrow> error + string"
  lstat_fault :: "path \<Rightarrow> string \<Rightarrow> error option"
  now_formatted :: string

text \<open>
  The state a reconcile attempt works on: the Promotion object it holds in memory, the
  local filesystem, the HEAD commit hash (as hex string) of each cloned repository by its
  directory, and the events so far.
\<close>

record state =
  obj :: Promotion
  files :: fs
  heads :: "path \<Rightarrow> string option"
  trace :: "event list"

text \<open>
  An action returns an error or a result, and the state it leaves; \<open>andThen\<close> is Go's
  \<open>if err != nil { return err }\<close> between two statements.
\<close>

type_synonym 'a act = "state \<Rightarrow> (error + 'a) \<times> state"

definition ret :: "'a \<Rightarrow> 'a act" where
  "ret x s = (Inr x, s)"

definition throw :: "error \<Rightarrow> 'a act" where
  "throw e s = (Inl e, s)"

definition lift :: "error + 'a \<Rightarrow> 'a act" where
  "lift r s = (r, s)"

definition andThen :: "'a act \<Rightarrow> ('a \<Rightarrow> 'b act) \<Rightarrow> 'b act" where
  "andThen m f s = (case m s of (Inl e, s') \<Rightarrow> (Inl e, s') | (Inr x, s') \<Rightarrow> f x s')"

definition emit :: "event \<Rightarrow> unit act" where
  "emit ev s = (Inr (), s\<lparr>trace := trace s @ [ev]\<rparr>)"

definition check :: "error option \<Rightarrow> unit act" where
  "check r s = (case r of Some e \<Rightarrow> (Inl e, s) | None \<Rightarrow> (Inr (), s))"

definition deferring :: "(state \<Rightarrow> state) \<Rightarrow> 'a act \<Rightarrow> 'a act" where
  "deferring cleanup m s = (case m s of (r, s') \<Rightarrow> (r, cleanup s'))"

section \<open>Strings and paths (Go's strings and path/filepath)\<close>

text \<open>\<open>strings.Replace(s, old, new, 1)\<close>: the first occurrence of \<open>old\<close> is replaced.\<close>

fun strings_Replace1 :: "string \<Rightarrow> string \<Rightarrow> string \<Rightarrow> string" where
  "strings_Replace1 [] old new = (if old = [] then new else [])"
| "strings_Replace1 (c # s) old new =
     (if prefix old (c # s) then new @ drop (length old) (c # s)
      else c # strings_Replace1 s old new)"

fun strings_Join :: "string list \<Rightarrow> string \<Rightarrow> string" where
  "strings_Join [] sep = []"
| "strings_Join [x] sep = x"
| "strings_Join (x # y # ys) sep = x @ sep @ strings_Join (y # ys) sep"

fun split_path :: "string \<Rightarrow> string list" where
  "split_path [] = [[]]"
| "split_path (c # s) =
     (if c = CHR ''/'' then [] # split_path s
      else (case split_path s of x # xs \<Rightarrow> (c # x) # xs | [] \<Rightarrow> [[c]]))"

definition components :: "string \<Rightarrow> string list" where
  "components s = filter (\<lambda>c. c \<noteq> [] \<and> c \<noteq> ''.'') (split_path s)"

text \<open>
  Lexical resolution of components from a starting path: \<open>..\<close> removes the last
  component, and stays where it is at the top.
\<close>

fun lexical :: "path \<Rightarrow> string list \<Rightarrow> path" where
  "lexical acc [] = acc"
| "lexical acc (c # cs) =
     (if c = ''..'' then lexical (butlast acc) cs else lexical (acc @ [c]) cs)"

definition filepath_Join :: "path \<Rightarrow> string \<Rightarrow> path" where
  "filepath_Join p s = lexical p (components s)"

definition filepath_Dir :: "path \<Rightarrow> path" where
  "filepath_Dir p = butlast p"

definition filepath_Base :: "path \<Rightarrow> path" where
  "filepath_Base p = (if p = [] then [] else [last p])"

text \<open>
  \<open>securejoin.SecureJoin(root, unsafePath)\<close> of github.com/cyphar/filepath-securejoin,
  which is not part of this repository.  The library resolves the unsafe path as if the
  root were the top of the filesystem: \<open>..\<close> cannot climb above the root, and the result
  is the root joined with what is left.  It returns an error only when looking at a path
  component fails (or symbolic links loop), which the world decides.  The library also
  follows symbolic links below the root; the filesystem here has none, and on such a
  filesystem what the library returns is this lexical result.
\<close>

definition SecureJoin :: "world \<Rightarrow> path \<Rightarrow> string \<Rightarrow> error + path" where
  "SecureJoin w root unsafePath =
     (case lstat_fault w root unsafePath of
        Some e \<Rightarrow> Inl e
      | None \<Rightarrow> Inr (root @ lexical [] (components unsafePath)))"

section \<open>Credentials and provider (environment\_controller.go)\<close>

definition SetupGitAuthEnvironment ::
    "world \<Rightarrow> Environment \<Rightarrow> error + PublicKeys option \<times> string" where
  "SetupGitAuthEnvironment w e =
     (let cloneURL = URL (Source (env_Spec e)) in
      case SecretRef (Source (env_Spec e)) of
        None \<Rightarrow> Inr (None, cloneURL)
      | Some secretName \<Rightarrow>
          (case kube_secret w secretName of
             Inl err \<Rightarrow> Inl err
           | Inr sshSecret \<Rightarrow>
               (case ParsePrivateKey w (sshSecret ''private'') of
                  Inl err \<Rightarrow> Inl err
                | Inr sshSigner \<Rightarrow>
                    Inr (Some \<lparr>User = ''git'', Signer = sshSigner,
                               HostKeyCallback = InsecureIgnoreHostKey\<rparr>,
                         strings_Replace1
                           (strings_Replace1 cloneURL ''https://'' ''git@'')
                           ''.com/'' ''.com:''))))"

text \<open>
  \<open>GitCloneEnvironment\<close>: the clone fills the directory and fixes the repository's HEAD.
  The repository handle is its directory.
\<close>

definition cloned :: "world \<Rightarrow> path \<Rightarrow> string \<Rightarrow> string \<Rightarrow> PublicKeys option \<Rightarrow> path act" where
  "cloned w tmpDir cloneURL branch gitAuthOpts s =
     (case PlainClone w tmpDir cloneURL branch gitAuthOpts (files s) of
        Inl err \<Rightarrow> (Inl err, s)
      | Inr (fs', h) \<Rightarrow> (Inr tmpDir, s\<lparr>files := fs', heads := (heads s)(tmpDir := Some h)\<rparr>))"

definition GitCloneEnvironment :: "world \<Rightarrow> Environment \<Rightarrow> path \<Rightarrow> path act" where
  "GitCloneEnvironment w e tmpDir =
     andThen (lift (SetupGitAuthEnvironment w e)) (\<lambda>(gitAuthOpts, cloneURL).
     andThen (emit (Clone tmpDir cloneURL (GetBranch e) gitAuthOpts)) (\<lambda>_.
       cloned w tmpDir cloneURL (GetBranch e) gitAuthOpts))"

text \<open>
  \<open>NewGitProviderOrgRepository\<close>: the provider client \<open>c\<close> is a nil interface (\<open>None\<close>)
  unless the switch assigns it; calling \<open>c.OrgRepositories()\<close> on nil panics.
\<close>

definition NewGitProviderOrgRepository :: "world \<Rightarrow> Environment \<Rightarrow> path \<Rightarrow> string act" where
  "NewGitProviderOrgRepository w e repo =
     andThen (case ApiTokenSecretRef (env_Spec e) of
                None \<Rightarrow> ret (\<lambda>k. [])
              | Some n \<Rightarrow> lift (kube_secret w n)) (\<lambda>tokenSecret.
     andThen (if GitProvider (env_Spec e) = GitProviderGitHub
              then andThen (lift (github_NewClient w (tokenSecret ''token''))) (\<lambda>cl. ret (Some cl))
              else ret None) (\<lambda>c.
     andThen (lift (ParseOrgRepositoryURL w (URL (Source (env_Spec e))))) (\<lambda>ref.
     case c of
       None \<Rightarrow> throw NilDereference
     | Some cl \<Rightarrow>
         andThen (emit (ProviderRepoGet ref)) (\<lambda>_. lift (OrgRepositories_Get w cl ref)))))"

section \<open>Copying one path (promotion\_controller.go, CopyOperation)\<close>

text \<open>
  Modelled from the spec: package internal/fs (\<open>Exists\<close>, \<open>Copy\<close>, \<open>CopyDirectory\<close>) is
  not among the sources.  The spec says the source must exist, that a directory is copied
  recursively with its contents, and that copies preserve content.  \<open>os.Stat\<close> and
  \<open>os.MkdirAll\<close> are Go's: \<open>Stat\<close> of a path that does not exist is an error.
\<close>

definition fs_Exists :: "path \<Rightarrow> bool act" where
  "fs_Exists p s = (Inr (files s p \<noteq> None), s)"

definition os_Stat :: "path \<Rightarrow> node act" where
  "os_Stat p s = (case files s p of None \<Rightarrow> (Inl (ENOENT p), s) | Some n \<Rightarrow> (Inr n, s))"

fun IsDir :: "node \<Rightarrow> bool" where
  "IsDir Dir = True"
| "IsDir (File c) = False"

text \<open>
  The filesystem after \<open>MkdirAll p\<close> (every missing prefix of \<open>p\<close> is a directory), after
  the recursive copy of \<open>src\<close> to \<open>dst\<close>, and after \<open>RemoveAll d\<close>.
\<close>

definition mkdir_all :: "path \<Rightarrow> fs \<Rightarrow> fs" where
  "mkdir_all p f q = (if prefix q p \<and> f q = None then Some Dir else f q)"

definition copy_tree :: "path \<Rightarrow> path \<Rightarrow> fs \<Rightarrow> fs" where
  "copy_tree src dst f q =
     (if prefix dst q
      then (case f (src @ drop (length dst) q) of Some n \<Rightarrow> Some n | None \<Rightarrow> f q)
      else f q)"

definition remove_tree :: "path \<Rightarrow> fs \<Rightarrow> fs" where
  "remove_tree d f q = (if prefix d q then None else f q)"

definition os_MkdirAll :: "path \<Rightarrow> unit act" where
  "os_MkdirAll p s =
     (if list_ex (\<lambda>q. case files s q of Some (File c) \<Rightarrow> True | _ \<Rightarrow> False) (prefixes p)
      then (Inl (ENOTDIR p), s)
      else (Inr (), s\<lparr>files := mkdir_all p (files s)\<rparr>))"

definition fs_Copy :: "path \<Rightarrow> path \<Rightarrow> unit act" where
  "fs_Copy src dst s =
     (case files s src of
        Some (File c) \<Rightarrow>
          (if files s dst = Some Dir then (Inl (EISDIR dst), s)
           else if files s (butlast dst) \<noteq> Some Dir then (Inl (ENOENT dst), s)
           else (Inr (), s\<lparr>files := (files s)(dst := Some (File c))\<rparr>))
      | Some Dir \<Rightarrow> (Inl (EISDIR src), s)
      | None \<Rightarrow> (Inl (ENOENT src), s))"

definition fs_CopyDirectory :: "path \<Rightarrow> path \<Rightarrow> unit act" where
  "fs_CopyDirectory src dst s =
     (case files s src of
        Some Dir \<Rightarrow> (Inr (), s\<lparr>files := copy_tree src dst (files s)\<rparr>)
      | Some (File c) \<Rightarrow> (Inl (ENOTDIR src), s)
      | None \<Rightarrow> (Inl (ENOENT src), s))"

definition CopyOperation :: "path \<Rightarrow> path \<Rightarrow> unit act" where
  "CopyOperation copySource copyTarget =
     andThen (fs_Exists copySource) (\<lambda>sourceExists.
       if \<not> sourceExists then throw (SourceMissing copySource)
       else
         andThen (os_Stat copySource) (\<lambda>copySourceFileInfo.
         andThen (os_Stat copyTarget) (\<lambda>copyTargetFileInfo.
           if IsDir copySourceFileInfo then
             andThen (os_MkdirAll (filepath_Dir copyTarget)) (\<lambda>_.
               fs_CopyDirectory copySource copyTarget)
           else
             (let copyTarget' =
                    (if IsDir copyTargetFileInfo
                     then copyTarget @ filepath_Base copySource
                     else copyTarget)
              in andThen (os_MkdirAll (filepath_Dir copyTarget')) (\<lambda>_.
                   fs_Copy copySource copyTarget')))))"

section \<open>The reconcile attempt (promotion\_controller.go, Reconcile)\<close>

text \<open>
  Modelled from the spec: \<open>util.TempDirForObj\<close> (package internal/util is not among the
  sources) creates a uniquely-named temporary directory; the world names it.  The
  deferred \<open>os.RemoveAll\<close> removes the directory and everything below it.
\<close>

definition TempDirForObj :: "world \<Rightarrow> nat \<Rightarrow> path act" where
  "TempDirForObj w n s =
     (case temp_dir w n of
        Inl err \<Rightarrow> (Inl err, s)
      | Inr d \<Rightarrow> (Inr d, s\<lparr>files := (files s)(d := Some Dir), trace := trace s @ [MkTempDir d]\<rparr>))"

definition os_RemoveAll :: "path \<Rightarrow> state \<Rightarrow> state" where
  "os_RemoveAll d s =
     s\<lparr>files := remove_tree d (files s), trace := trace s @ [RemoveAll d]\<rparr>"

definition repo_Head :: "world \<Rightarrow> site \<Rightarrow> path \<Rightarrow> string act" where
  "repo_Head w st repo s =
     (case fault w st of
        Some err \<Rightarrow> (Inl err, s)
      | None \<Rightarrow>
          (case heads s repo of
             None \<Rightarrow> (Inl (Failed ''reference not found''), s)
           | Some h \<Rightarrow> (Inr h, s)))"

definition set_head :: "path \<Rightarrow> string \<Rightarrow> unit act" where
  "set_head repo h s = (Inr (), s\<lparr>heads := (heads s)(repo := Some h)\<rparr>)"

definition modify_obj :: "(Promotion \<Rightarrow> Promotion) \<Rightarrow> unit act" where
  "modify_obj f s = (Inr (), s\<lparr>obj := f (obj s)\<rparr>)"

definition get_obj :: "Promotion act" where
  "get_obj s = (Inr (obj s), s)"

definition checked_out :: "world \<Rightarrow> path \<Rightarrow> string \<Rightarrow> unit act" where
  "checked_out w repo branch s =
     (Inr (), s\<lparr>files := checkout_files w branch (files s),
                 heads := (heads s)(repo := Some (branch_head w branch))\<rparr>)"

text \<open>
  Lines 128 to 172: the provider repository, the worktrees, the source's latest commit
  (of whose hash the first seven hex digits are kept), the push credentials and the list
  of open pull requests.
\<close>

definition resolve_request ::
    "world \<Rightarrow> Environment \<Rightarrow> path \<Rightarrow> path \<Rightarrow>
       (string \<times> PublicKeys option \<times> string \<times> PullRequest list) act" where
  "resolve_request w targetEnvironment sourceEnvironmentRepo targetEnvironmentRepo =
     andThen (NewGitProviderOrgRepository w targetEnvironment targetEnvironmentRepo) (\<lambda>providerRepo.
     andThen (check (fault w Worktree_source)) (\<lambda>_.
     andThen (check (fault w Worktree_target)) (\<lambda>_.
     andThen (repo_Head w Head_source sourceEnvironmentRepo) (\<lambda>sourceHead.
     andThen (check (fault w CommitObject_source)) (\<lambda>_.
     andThen (lift (SetupGitAuthEnvironment w targetEnvironment)) (\<lambda>(gitAuthOpts, cloneURL).
     andThen (emit PRList) (\<lambda>_.
     andThen (lift (PullRequests_List w)) (\<lambda>prs.
     ret (take 7 sourceHead, gitAuthOpts, cloneURL, prs)))))))))"

text \<open>Lines 174 to 183: the loop over the listed requests, left at the first match.\<close>

fun pr_listed :: "int \<Rightarrow> PullRequest list \<Rightarrow> bool" where
  "pr_listed n [] = False"
| "pr_listed n (pr # prs) = (if Number pr = n then True else pr_listed n prs)"

definition isPROpen_of :: "Promotion \<Rightarrow> PullRequest list \<Rightarrow> bool" where
  "isPROpen_of p prs =
     (if LastPullRequestNumber (Status p) \<noteq> 0
      then pr_listed (LastPullRequestNumber (Status p)) prs
      else False)"

text \<open>
  Lines 185 to 218: resume the branch of the open request (get, fetch, forced checkout),
  or create a fresh branch at the current HEAD.
\<close>

definition acquire_branch ::
    "world \<Rightarrow> path \<Rightarrow> string \<Rightarrow> bool \<Rightarrow> (PullRequest option \<times> string) act" where
  "acquire_branch w targetEnvironmentRepo cloneURL isPROpen =
     andThen get_obj (\<lambda>p.
       if isPROpen then
         andThen (emit (PRGet (LastPullRequestNumber (Status p)))) (\<lambda>_.
         andThen (lift (PullRequests_Get w (LastPullRequestNumber (Status p)))) (\<lambda>pr.
         andThen (emit (GitFetch cloneURL)) (\<lambda>_.
         andThen (check (fault w Fetch_target)) (\<lambda>_.
         andThen (emit (GitCheckout (''refs/heads/'' @ SourceBranch pr) False True)) (\<lambda>_.
         andThen (check (fault w Checkout_pull_request)) (\<lambda>_.
         andThen (checked_out w targetEnvironmentRepo (SourceBranch pr)) (\<lambda>_.
         ret (Some pr, SourceBranch pr))))))))
       else
         andThen (emit (GitCheckout
                    (''refs/heads/'' @ ''promotion/'' @ Name p @ ''-'' @ now_formatted w)
                    True False)) (\<lambda>_.
         andThen (check (fault w Checkout_new_branch)) (\<lambda>_.
         ret (None, ''promotion/'' @ Name p @ ''-'' @ now_formatted w))))"

text \<open>Lines 272 to 285: the commit message template, executed.\<close>

definition commit_message :: "string \<Rightarrow> string \<Rightarrow> string \<Rightarrow> string \<Rightarrow> string" where
  "commit_message opName sourceEnv targetEnv sha =
     ''chore: promote '' @ opName @ '' from '' @ sourceEnv @ '' to '' @ targetEnv
       @ [CHR 0x0A, CHR 0x0A] @ ''SHA in source environment: '' @ sha @ [CHR 0x0A]"

text \<open>What the body of the copy loop reads from the enclosing function.\<close>

record loop_vars =
  sourceEnvName :: string
  targetEnvName :: string
  sourceEnvironmentFullPath :: path
  targetEnvironmentFullPath :: path
  targetEnvironmentRepo :: path
  sourceEnvironmentLatestCommit :: string
  pushURL :: string

text \<open>Lines 232 to 311: one iteration of the loop over \<open>obj.Spec.Copy\<close>.\<close>

definition copy_step ::
    "world \<Rightarrow> loop_vars \<Rightarrow> nat \<Rightarrow> CopyOperationT \<Rightarrow> string list \<Rightarrow> string list act" where
  "copy_step w v i copyOperation promotedSubjects =
     andThen (lift (SecureJoin w (sourceEnvironmentFullPath v) (op_Source copyOperation))) (\<lambda>copySource.
     andThen (lift (SecureJoin w (targetEnvironmentFullPath v) (op_Target copyOperation))) (\<lambda>copyTarget.
     andThen (emit (CopyOp copySource copyTarget)) (\<lambda>_.
     andThen (CopyOperation copySource copyTarget) (\<lambda>_.
     andThen (emit WtStatus) (\<lambda>_.
     andThen (lift (Worktree_Status w i)) (\<lambda>isClean.
       if isClean then ret promotedSubjects
       else
         andThen (emit WtAddGlob) (\<lambda>_.
         andThen (check (fault w (AddGlob_at i))) (\<lambda>_.
         andThen (emit (WtCommit (commit_message (op_Name copyOperation) (sourceEnvName v)
                                    (targetEnvName v) (sourceEnvironmentLatestCommit v)))) (\<lambda>_.
         andThen (lift (Worktree_Commit w i)) (\<lambda>h.
         andThen (set_head (targetEnvironmentRepo v) h) (\<lambda>_.
         andThen (emit (GitPush (pushURL v))) (\<lambda>_.
         andThen (check (fault w (Push_at i))) (\<lambda>_.
         andThen (modify_obj (\<lambda>p. PromotionReady p SucceededReason
                                      ''Pushed new commits to PR branch'')) (\<lambda>_.
         ret (promotedSubjects @ [op_Name copyOperation])))))))))))))))"

fun copy_loop ::
    "world \<Rightarrow> loop_vars \<Rightarrow> nat \<Rightarrow> CopyOperationT list \<Rightarrow> string list \<Rightarrow> string list act" where
  "copy_loop w v i [] promotedSubjects = ret promotedSubjects"
| "copy_loop w v i (copyOperation # rest) promotedSubjects =
     andThen (copy_step w v i copyOperation promotedSubjects) (\<lambda>promoted.
       copy_loop w v (Suc i) rest promoted)"

definition pr_title :: "string list \<Rightarrow> string \<Rightarrow> string \<Rightarrow> string" where
  "pr_title promotedSubjects sourceEnv targetEnv =
     ''chore: promote '' @ strings_Join promotedSubjects '', ''
       @ '' from '' @ sourceEnv @ '' to '' @ targetEnv"

text \<open>
  Lines 313 to 357: compare the branch head before and after the loop, edit or create
  the pull request, set the final message, and ask to be called again in 300 seconds.
\<close>

definition sync_request ::
    "world \<Rightarrow> Environment \<Rightarrow> Environment \<Rightarrow> path \<Rightarrow> bool \<Rightarrow> PullRequest option \<Rightarrow> string \<Rightarrow>
       string \<Rightarrow> string list \<Rightarrow> nat act" where
  "sync_request w sourceEnvironment targetEnvironment targetRepo isPROpen pr branch
       beforeHead promotedSubjects =
     andThen (repo_Head w Head_after targetRepo) (\<lambda>afterHead.
     andThen
       (if beforeHead \<noteq> afterHead then
          (if isPROpen then
             (case pr of
                None \<Rightarrow> throw NilDereference
              | Some openPR \<Rightarrow>
                  andThen (emit (PREdit (Number openPR)
                             (pr_title promotedSubjects (env_Name sourceEnvironment)
                                (env_Name targetEnvironment)))) (\<lambda>_.
                  andThen (lift (PullRequests_Edit w (Number openPR)
                             (pr_title promotedSubjects (env_Name sourceEnvironment)
                                (env_Name targetEnvironment)))) (\<lambda>_.
                  ret True)))
           else
             (case Reference (Source (env_Spec targetEnvironment)) of
                None \<Rightarrow> throw NilDereference
              | Some r \<Rightarrow>
                  andThen (emit (PRCreate
                             (pr_title promotedSubjects (env_Name sourceEnvironment)
                                (env_Name targetEnvironment))
                             branch (Branch r) [])) (\<lambda>_.
                  andThen (lift (PullRequests_Create w
                             (pr_title promotedSubjects (env_Name sourceEnvironment)
                                (env_Name targetEnvironment))
                             branch (Branch r) [])) (\<lambda>newPR.
                  andThen (modify_obj (\<lambda>p. PromotionReady p SucceededReason
                                               ''New Pull request created successfully'')) (\<lambda>_.
                  andThen (modify_obj (\<lambda>p. p\<lparr>Status := (Status p)
                                               \<lparr>LastPullRequestNumber := Number newPR,
                                                LastPullRequestURL := WebURL newPR\<rparr>\<rparr>)) (\<lambda>_.
                  ret True))))))
        else
          andThen (modify_obj (\<lambda>p. PromotionReady p SucceededReason
                                       ''A pull request is open for review.'')) (\<lambda>_.
          ret isPROpen))
       (\<lambda>isPROpen'.
     andThen
       (if \<not> isPROpen' then
          modify_obj (\<lambda>p. PromotionReady p SucceededReason
                             ''Source and target environments are in sync, nothing to promote.'')
        else ret ())
       (\<lambda>_. ret 300)))"

text \<open>Lines 128 to 357, once both repositories are cloned.\<close>

definition promote :: "world \<Rightarrow> Environment \<Rightarrow> Environment \<Rightarrow> path \<Rightarrow> path \<Rightarrow> nat act" where
  "promote w sourceEnvironment targetEnvironment sourceEnvironmentPath targetEnvironmentPath =
     andThen (resolve_request w targetEnvironment sourceEnvironmentPath targetEnvironmentPath)
       (\<lambda>(sha, gitAuthOpts, cloneURL, prs).
         andThen get_obj (\<lambda>p.
         andThen (acquire_branch w targetEnvironmentPath cloneURL (isPROpen_of p prs))
           (\<lambda>(pr, branch).
         andThen (repo_Head w Head_before targetEnvironmentPath) (\<lambda>beforeHead.
         andThen (copy_loop w
                    \<lparr>sourceEnvName = env_Name sourceEnvironment,
                     targetEnvName = env_Name targetEnvironment,
                     sourceEnvironmentFullPath =
                       filepath_Join sourceEnvironmentPath (Path (env_Spec sourceEnvironment)),
                     targetEnvironmentFullPath =
                       filepath_Join targetEnvironmentPath (Path (env_Spec targetEnvironment)),
                     targetEnvironmentRepo = targetEnvironmentPath,
                     sourceEnvironmentLatestCommit = sha,
                     pushURL = cloneURL\<rparr>
                    0 (Copy (Spec p)) []) (\<lambda>promotedSubjects.
         sync_request w sourceEnvironment targetEnvironment targetEnvironmentPath
           (isPROpen_of p prs) pr branch beforeHead promotedSubjects)))))"

text \<open>Lines 104 to 126: the two workspaces, each removed when the attempt ends.\<close>

definition reconcile_ready :: "world \<Rightarrow> Environment \<Rightarrow> Environment \<Rightarrow> nat act" where
  "reconcile_ready w sourceEnvironment targetEnvironment =
     andThen (TempDirForObj w 0) (\<lambda>sourceTmpDir.
     deferring (os_RemoveAll sourceTmpDir)
       (andThen (GitCloneEnvironment w sourceEnvironment sourceTmpDir) (\<lambda>sourceEnvironmentRepo.
        andThen (TempDirForObj w 1) (\<lambda>targetTmpDir.
        deferring (os_RemoveAll targetTmpDir)
          (andThen (GitCloneEnvironment w targetEnvironment targetTmpDir) (\<lambda>targetEnvironmentRepo.
           promote w sourceEnvironment targetEnvironment sourceEnvironmentRepo
             targetEnvironmentRepo))))))"

text \<open>
  Lines 80 to 102: fetch both environments (a missing one ends the attempt without
  error), and wait ten seconds if one of them is not ready.
\<close>

definition get_environment :: "world \<Rightarrow> string option \<Rightarrow> (Environment \<Rightarrow> nat act) \<Rightarrow> nat act" where
  "get_environment w r continue =
     (case r of
        None \<Rightarrow> throw NilDereference
      | Some n \<Rightarrow>
          (case kube_environment w n of
             Inl err \<Rightarrow> (case IgnoreNotFound err of None \<Rightarrow> ret 0 | Some e \<Rightarrow> throw e)
           | Inr environment \<Rightarrow> continue environment))"

definition reconcile_environments :: "world \<Rightarrow> nat act" where
  "reconcile_environments w =
     andThen get_obj (\<lambda>p.
       get_environment w (SourceEnvironmentRef (Spec p)) (\<lambda>sourceEnvironment.
       get_environment w (TargetEnvironmentRef (Spec p)) (\<lambda>targetEnvironment.
         if \<not> IsReady sourceEnvironment then ret 10
         else if \<not> IsReady targetEnvironment then ret 10
         else reconcile_ready w sourceEnvironment targetEnvironment)))"

text \<open>
  Lines 72 to 78, the deferred function: the observed generation is refreshed and the
  status written back; a failure of the write is only logged.
\<close>

definition deferred_status_update :: "state \<Rightarrow> state" where
  "deferred_status_update s =
     s\<lparr>obj := (obj s)\<lparr>Status := (Status (obj s))\<lparr>ObservedGeneration := Generation (obj s)\<rparr>\<rparr>,
       trace := trace s
         @ [StatusUpdate ((obj s)\<lparr>Status := (Status (obj s))
                                    \<lparr>ObservedGeneration := Generation (obj s)\<rparr>\<rparr>)]\<rparr>"

definition zero_Promotion :: Promotion where
  "zero_Promotion =
     \<lparr>Name = [], Namespace = [], Generation = 0,
      Spec = \<lparr>SourceEnvironmentRef = None, TargetEnvironmentRef = None, Copy = [], Strategy = []\<rparr>,
      Status = \<lparr>ObservedGeneration = 0, Conditions = [], LastPullRequestURL = [],
                LastPullRequestNumber = 0\<rparr>\<rparr>"

definition initial_state :: "fs \<Rightarrow> state" where
  "initial_state fs0 = \<lparr>obj = zero_Promotion, files = fs0, heads = (\<lambda>repo. None), trace = []\<rparr>"

text \<open>
  \<open>Reconcile\<close>: the result is the requeue delay in seconds (0 for \<open>ctrl.Result{}\<close>) and
  the error returned, with the state the attempt leaves.
\<close>

definition Reconcile :: "world \<Rightarrow> fs \<Rightarrow> (nat \<times> error option) \<times> state" where
  "Reconcile w fs0 =
     (case kube_promotion w of
        Inl err \<Rightarrow> ((0, IgnoreNotFound err), initial_state fs0)
      | Inr p \<Rightarrow>
          (case deferring deferred_status_update (reconcile_environments w)
                  ((initial_state fs0)\<lparr>obj := p\<rparr>) of
             (Inl err, s') \<Rightarrow> ((0, Some err), s')
           | (Inr requeueAfter, s') \<Rightarrow> ((requeueAfter, None), s')))"

section \<open>Observations on states and traces\<close>

text \<open>
  The only call that writes to the resource store is the deferred status update; the
  events that change the target repository or its pull requests are commit, push, create
  and edit.
\<close>

fun is_store_write :: "event \<Rightarrow> bool" where
  "is_store_write (StatusUpdate p) = True"
| "is_store_write ev = False"

fun change_event :: "event \<Rightarrow> bool" where
  "change_event (WtCommit m) = True"
| "change_event (GitPush u) = True"
| "change_event (PRCreate t h b d) = True"
| "change_event (PREdit n t) = True"
| "change_event ev = False"

definition ReadyTrue :: "Promotion \<Rightarrow> bool" where
  "ReadyTrue p =
     (case FindStatusCondition (Conditions (Status p)) ReadyCondition of
        Some c \<Rightarrow> cond_Status c = ConditionTrue
      | None \<Rightarrow> False)"

text \<open>
  \<open>keeps s s'\<close>: from \<open>s\<close> to \<open>s'\<close> the Promotion's metadata and spec are untouched, its
  conditions are untouched or Ready has been set to True, and nothing was written to the
  resource store.  \<open>calm s s'\<close>: no commit, push, or pull-request change was made.
\<close>

definition keeps :: "state \<Rightarrow> state \<Rightarrow> bool" where
  "keeps s s' =
     (Name (obj s') = Name (obj s) \<and> Namespace (obj s') = Namespace (obj s) \<and>
      Generation (obj s') = Generation (obj s) \<and> Spec (obj s') = Spec (obj s) \<and>
      (Conditions (Status (obj s')) = Conditions (Status (obj s)) \<or> ReadyTrue (obj s')) \<and>
      filter is_store_write (trace s') = filter is_store_write (trace s))"

definition calm :: "state \<Rightarrow> state \<Rightarrow> bool" where
  "calm s s' = (filter change_event (trace s') = filter change_event (trace s))"

definition preserves :: "(state \<Rightarrow> state \<Rightarrow> bool) \<Rightarrow> 'a act \<Rightarrow> bool" where
  "preserves R m = (\<forall>s. R s (snd (m s)))"

definition preorder :: "(state \<Rightarrow> state \<Rightarrow> bool) \<Rightarrow> bool" where
  "preorder R = ((\<forall>s. R s s) \<and> (\<forall>s t u. R s t \<longrightarrow> R t u \<longrightarrow> R s u))"

text \<open>
  \<open>quiet s s'\<close>: the Promotion in memory is untouched and no commit, push or pull-request
  change was made.  \<open>still s s'\<close>: moreover no repository head has moved.
\<close>

definition quiet :: "state \<Rightarrow> state \<Rightarrow> bool" where
  "quiet s s' = (obj s' = obj s \<and> calm s s')"

definition still :: "state \<Rightarrow> state \<Rightarrow> bool" where
  "still s s' = (obj s' = obj s \<and> heads s' = heads s \<and> calm s s')"


text \<open>
  \<open>only_files s s'\<close>: nothing but the filesystem has changed.  \<open>adds P s s'\<close>: the trace
  has grown, by events that all satisfy \<open>P\<close>.  \<open>new_events s s'\<close> are the events added.
\<close>

definition only_files :: "state \<Rightarrow> state \<Rightarrow> bool" where
  "only_files s s' = (obj s' = obj s \<and> heads s' = heads s \<and> trace s' = trace s)"

definition adds :: "(event \<Rightarrow> bool) \<Rightarrow> state \<Rightarrow> state \<Rightarrow> bool" where
  "adds P s s' = (\<exists>es. trace s' = trace s @ es \<and> list_all P es)"

text \<open>
  \<open>same_files s s'\<close>: the filesystem is as it was.  \<open>same_request s s'\<close>: the pull
  request recorded in the Promotion's status is as it was.
\<close>

definition same_files :: "state \<Rightarrow> state \<Rightarrow> bool" where
  "same_files s s' = (files s' = files s)"

definition same_request :: "state \<Rightarrow> state \<Rightarrow> bool" where
  "same_request s s' =
     (LastPullRequestNumber (Status (obj s')) = LastPullRequestNumber (Status (obj s)) \<and>
      LastPullRequestURL (Status (obj s')) = LastPullRequestURL (Status (obj s)))"

definition new_events :: "state \<Rightarrow> state \<Rightarrow> event list" where
  "new_events s s' = drop (length (trace s)) (trace s')"

text \<open>
  The events of the copy loop, the pull-request writes, and the title a pull-request
  write carries.
\<close>

fun loop_event :: "event \<Rightarrow> bool" where
  "loop_event (CopyOp a b) = True"
| "loop_event WtStatus = True"
| "loop_event WtAddGlob = True"
| "loop_event (WtCommit m) = True"
| "loop_event (GitPush u) = True"
| "loop_event ev = False"

fun pr_write :: "event \<Rightarrow> bool" where
  "pr_write (PRCreate t h b d) = True"
| "pr_write (PREdit n t) = True"
| "pr_write ev = False"


text \<open>
  What the change ladder is to do, in the spec's words: the operations run in declared
  order, each on its source and target as the root-confining join resolves them
  (\<open>joined\<close>); after each one the worktree status is inspected; if and only if it is dirty
  (\<open>Worktree_Status\<close> answers not clean) everything is staged, committed with the
  templated message and pushed; and the names of the operations that were committed
  are recorded, in order.  \<open>copied a b f\<close> is the filesystem \<open>CopyOperation a b\<close> leaves
  when it starts on \<open>f\<close>, and \<open>ladder_files\<close> the filesystem after all operations, one
  after the other.
\<close>

definition joined :: "world \<Rightarrow> path \<Rightarrow> string \<Rightarrow> path" where
  "joined w root unsafePath =
     (case SecureJoin w root unsafePath of Inr q \<Rightarrow> q | Inl e \<Rightarrow> root)"

definition copied :: "path \<Rightarrow> path \<Rightarrow> fs \<Rightarrow> fs" where
  "copied a b f = files (snd (CopyOperation a b (initial_state f)))"

fun ladder_files :: "world \<Rightarrow> loop_vars \<Rightarrow> CopyOperationT list \<Rightarrow> fs \<Rightarrow> fs" where
  "ladder_files w v [] f = f"
| "ladder_files w v (c # cs) f =
     ladder_files w v cs
       (copied (joined w (sourceEnvironmentFullPath v) (op_Source c))
               (joined w (targetEnvironmentFullPath v) (op_Target c)) f)"

fun promoted_names :: "world \<Rightarrow> nat \<Rightarrow> CopyOperationT list \<Rightarrow> string list" where
  "promoted_names w i [] = []"
| "promoted_names w i (c # cs) =
     (if Worktree_Status w i = Inr False then [op_Name c] else []) @ promoted_names w (Suc i) cs"

fun ladder_events :: "world \<Rightarrow> loop_vars \<Rightarrow> nat \<Rightarrow> CopyOperationT list \<Rightarrow> event list" where
  "ladder_events w v i [] = []"
| "ladder_events w v i (c # cs) =
     [CopyOp (joined w (sourceEnvironmentFullPath v) (op_Source c))
             (joined w (targetEnvironmentFullPath v) (op_Target c)),
      WtStatus]
     @ (if Worktree_Status w i = Inr False
        then [WtAddGlob,
              WtCommit (commit_message (op_Name c) (sourceEnvName v) (targetEnvName v)
                          (sourceEnvironmentLatestCommit v)),
              GitPush (pushURL v)]
        else [])
     @ ladder_events w v (Suc i) cs"

text \<open>
  The workspace the ladder starts on: the clone as it is, or, when a request is open,
  the branch of that request checked out.
\<close>

definition request_branch :: "world \<Rightarrow> Promotion \<Rightarrow> string" where
  "request_branch w p =
     (case PullRequests_Get w (LastPullRequestNumber (Status p)) of
        Inr pr \<Rightarrow> SourceBranch pr
      | Inl e \<Rightarrow> [])"


definition empty_fs :: fs where
  "empty_fs = (\<lambda>p. None)"

section \<open>Example worlds\<close>

text \<open>
  The promotion of the README: environments \<open>dev\<close> and \<open>prod\<close> on GitHub, \<open>prod\<close> with an
  SSH key and an API token.  The Promotion records pull request 5, which is no longer
  open (the provider lists only 9).  Of the three copy operations only the second one
  changes the target worktree.
\<close>

definition ready_conditions :: "Condition list" where
  "ready_conditions =
     [\<lparr>cond_Type = ReadyCondition, cond_Status = ConditionTrue, cond_Reason = SucceededReason,
       cond_Message = ''Authentication works, cloned repo successfully.''\<rparr>]"

definition example_dev :: Environment where
  "example_dev =
     \<lparr>env_Name = ''dev'', env_Namespace = ''default'',
      env_Spec = \<lparr>Path = ''./envs/dev'',
                  Source = \<lparr>URL = ''https://github.com/acme/overlay-dev'',
                            Reference = Some \<lparr>Branch = ''main''\<rparr>, SecretRef = None\<rparr>,
                  ApiTokenSecretRef = None, GitProvider = []\<rparr>,
      env_Status = \<lparr>env_ObservedGeneration = 1, env_Conditions = ready_conditions,
                    ObservedCommitHash = ''4f2a9c1d7e3b5a6f8091a2b3c4d5e6f708192a3b''\<rparr>\<rparr>"

definition example_prod :: Environment where
  "example_prod =
     \<lparr>env_Name = ''prod'', env_Namespace = ''default'',
      env_Spec = \<lparr>Path = ''./envs/prod'',
                  Source = \<lparr>URL = ''https://github.com/acme/overlay-prod'',
                            Reference = Some \<lparr>Branch = ''main''\<rparr>, SecretRef = Some ''prod-ssh''\<rparr>,
                  ApiTokenSecretRef = Some ''github-api-token'', GitProvider = ''github''\<rparr>,
      env_Status = \<lparr>env_ObservedGeneration = 1, env_Conditions = ready_conditions,
                    ObservedCommitHash = ''0b7d3e6a9c2f4e1d8a5b6c7d8e9f0a1b2c3d4e5f''\<rparr>\<rparr>"

definition example_gitlab :: Environment where
  "example_gitlab =
     example_prod\<lparr>env_Spec := (env_Spec example_prod)
       \<lparr>Source := \<lparr>URL = ''https://gitlab.example.org/team/app'',
                    Reference = Some \<lparr>Branch = ''main''\<rparr>, SecretRef = Some ''prod-ssh''\<rparr>\<rparr>\<rparr>"

definition example_copy :: "CopyOperationT list" where
  "example_copy =
     [\<lparr>op_Name = ''Settings'', op_Source = ''settings'', op_Target = ''settings''\<rparr>,
      \<lparr>op_Name = ''Kustomization File'', op_Source = ''./app-version/kustomization.yaml'',
       op_Target = ''./app-version/''\<rparr>,
      \<lparr>op_Name = ''Application Version'', op_Source = ''app-version'',
       op_Target = ''app-version''\<rparr>]"

definition example_promotion :: Promotion where
  "example_promotion =
     \<lparr>Name = ''from-dev-to-prod'', Namespace = ''default'', Generation = 2,
      Spec = \<lparr>SourceEnvironmentRef = Some ''dev'', TargetEnvironmentRef = Some ''prod'',
              Copy = example_copy, Strategy = ''pull-request''\<rparr>,
      Status = \<lparr>ObservedGeneration = 1,
                Conditions =
                  [\<lparr>cond_Type = ReadyCondition, cond_Status = ConditionTrue,
                    cond_Reason = SucceededReason,
                    cond_Message = ''New Pull request created successfully''\<rparr>],
                LastPullRequestURL = ''https://github.com/acme/overlay-prod/pull/5'',
                LastPullRequestNumber = 5\<rparr>\<rparr>"

definition example_tree :: "path \<Rightarrow> path \<Rightarrow> node option" where
  "example_tree dir =
     (if dir = [''tmp'', ''source'']
      then map_of
        [([], Dir), ([''envs''], Dir), ([''envs'', ''dev''], Dir),
         ([''envs'', ''dev'', ''settings''], Dir),
         ([''envs'', ''dev'', ''settings'', ''limits.yaml''], File ''cpu: 2''),
         ([''envs'', ''dev'', ''app-version''], Dir),
         ([''envs'', ''dev'', ''app-version'', ''kustomization.yaml''], File ''tag: v2'')]
      else map_of
        [([], Dir), ([''envs''], Dir), ([''envs'', ''prod''], Dir),
         ([''envs'', ''prod'', ''settings''], Dir),
         ([''envs'', ''prod'', ''settings'', ''limits.yaml''], File ''cpu: 2''),
         ([''envs'', ''prod'', ''app-version''], Dir),
         ([''envs'', ''prod'', ''app-version'', ''kustomization.yaml''], File ''tag: v1'')])"

definition example_clone :: "path \<Rightarrow> fs \<Rightarrow> fs" where
  "example_clone dir f q = (if prefix dir q then example_tree dir (drop (length dir) q) else f q)"

definition example_world :: world where
  "example_world =
     \<lparr>kube_promotion = Inr example_promotion,
      kube_environment = (\<lambda>n. if n = ''dev'' then Inr example_dev
                               else if n = ''prod'' then Inr example_prod else Inl NotFound),
      kube_secret = (\<lambda>n. Inr (\<lambda>k. ''bytes of '' @ k)),
      ParsePrivateKey = (\<lambda>k. Inr ''ssh-rsa gitopsprombot''),
      temp_dir = (\<lambda>n. Inr (if n = 0 then [''tmp'', ''source''] else [''tmp'', ''target''])),
      PlainClone = (\<lambda>dir url branch auth f.
         Inr (example_clone dir f,
              if dir = [''tmp'', ''source''] then ''4f2a9c1d7e3b5a6f8091a2b3c4d5e6f708192a3b''
              else ''0b7d3e6a9c2f4e1d8a5b6c7d8e9f0a1b2c3d4e5f'')),
      github_NewClient = (\<lambda>token. Inr (GitHubClient token)),
      ParseOrgRepositoryURL = (\<lambda>url. Inr (drop 8 url)),
      OrgRepositories_Get = (\<lambda>c r. Inr r),
      PullRequests_List =
        Inr [\<lparr>Number = 9, WebURL = ''https://github.com/acme/overlay-prod/pull/9'',
              SourceBranch = ''promotion/other-2023-01-01-00-00-00''\<rparr>],
      PullRequests_Get = (\<lambda>n.
        Inr \<lparr>Number = n, WebURL = ''https://github.com/acme/overlay-prod/pull/9'',
             SourceBranch = ''promotion/other-2023-01-01-00-00-00''\<rparr>),
      PullRequests_Create = (\<lambda>title branch base body.
        Inr \<lparr>Number = 12, WebURL = ''https://github.com/acme/overlay-prod/pull/12'',
             SourceBranch = branch\<rparr>),
      PullRequests_Edit = (\<lambda>n title.
        Inr \<lparr>Number = n, WebURL = ''https://github.com/acme/overlay-prod/pull/9'',
             SourceBranch = ''promotion/other-2023-01-01-00-00-00''\<rparr>),
      fault = (\<lambda>st. None),
      branch_head = (\<lambda>b. ''77aa01bb23cc45dd67ee89ff00112233445566aa''),
      checkout_files = (\<lambda>b f. f),
      Worktree_Status = (\<lambda>i. Inr (i \<noteq> 1)),
      Worktree_Commit = (\<lambda>i. Inr ''e5d4c3b2a1908f7e6d5c4b3a29180f7e6d5c4b3a''),
      lstat_fault = (\<lambda>root unsafePath. None),
      now_formatted = ''2023-05-17-09-30-00''\<rparr>"

text \<open>Nothing to promote: no copy operation changes the target worktree.\<close>

definition converged_world :: world where
  "converged_world = example_world\<lparr>Worktree_Status := (\<lambda>i. Inr True)\<rparr>"


text \<open>
  The target Environment without \<open>spec.source.ref\<close>, which is optional: the branch then
  defaults to \<open>master\<close>.
\<close>

definition noref_prod :: Environment where
  "noref_prod =
     example_prod\<lparr>env_Spec := (env_Spec example_prod)
       \<lparr>Source := \<lparr>URL = ''https://github.com/acme/overlay-prod'',
                    Reference = None, SecretRef = Some ''prod-ssh''\<rparr>\<rparr>\<rparr>"

definition noref_world :: world where
  "noref_world =
     example_world\<lparr>kube_environment :=
       (\<lambda>n. if n = ''dev'' then Inr example_dev
            else if n = ''prod'' then Inr noref_prod else Inl NotFound)\<rparr>"

text \<open>The clone of the source repository fails.\<close>

definition unreachable_world :: world where
  "unreachable_world =
     example_world\<lparr>PlainClone := (\<lambda>dir url branch auth f. Inl (Failed ''repository not found''))\<rparr>"

text \<open>
  The state once both repositories are cloned, the variables of the copy loop in that
  run, and a copy operation whose paths climb out of the environment directory.
\<close>

definition example_cloned :: state where
  "example_cloned =
     \<lparr>obj = example_promotion,
      files = example_clone [''tmp'', ''target''] (example_clone [''tmp'', ''source''] empty_fs),
      heads = (\<lambda>repo. if repo = [''tmp'', ''source'']
                       then Some ''4f2a9c1d7e3b5a6f8091a2b3c4d5e6f708192a3b''
                       else if repo = [''tmp'', ''target'']
                       then Some ''0b7d3e6a9c2f4e1d8a5b6c7d8e9f0a1b2c3d4e5f'' else None),
      trace = []\<rparr>"



text \<open>A workspace in which a file is to be copied to a path that does not exist yet.\<close>

definition example_workspace :: state where
  "example_workspace =
     \<lparr>obj = example_promotion,
      files = map_of
        [([''source''], Dir), ([''source'', ''kustomization.yaml''], File ''tag: v2''),
         ([''target''], Dir), ([''target'', ''app-version''], Dir)],
      heads = (\<lambda>repo. None), trace = []\<rparr>"

section \<open>Basic facts about actions\<close>

lemma prims [simp]:
  "ret x s = (Inr x, s)" "throw e s = (Inl e, s)" "lift r s = (r, s)"
  "emit ev s = (Inr (), s\<lparr>trace := trace s @ [ev]\<rparr>)"
  "check None s = (Inr (), s)" "check (Some e) s = (Inl e, s)"
  by (simp_all add: ret_def throw_def lift_def emit_def check_def)

lemma andThen_simps [simp]:
  "m s = (Inl e, s') \<Longrightarrow> andThen m f s = (Inl e, s')"
  "m s = (Inr x, s') \<Longrightarrow> andThen m f s = f x s'"
  by (simp_all add: andThen_def)

text \<open>What the example world answers, and the definitions a concrete run unfolds.\<close>

lemma example_world_sel:
  "kube_promotion example_world = Inr example_promotion"
  "kube_environment example_world = (\<lambda>n. if n = ''dev'' then Inr example_dev
                               else if n = ''prod'' then Inr example_prod else Inl NotFound)"
  "kube_secret example_world = (\<lambda>n. Inr (\<lambda>k. ''bytes of '' @ k))"
  "ParsePrivateKey example_world = (\<lambda>k. Inr ''ssh-rsa gitopsprombot'')"
  "temp_dir example_world = (\<lambda>n. Inr (if n = 0 then [''tmp'', ''source''] else [''tmp'', ''target'']))"
  "PlainClone example_world = (\<lambda>dir url branch auth f.
         Inr (example_clone dir f,
              if dir = [''tmp'', ''source''] then ''4f2a9c1d7e3b5a6f8091a2b3c4d5e6f708192a3b''
              else ''0b7d3e6a9c2f4e1d8a5b6c7d8e9f0a1b2c3d4e5f''))"
  "github_NewClient example_world = (\<lambda>token. Inr (GitHubClient token))"
  "ParseOrgRepositoryURL example_world = (\<lambda>url. Inr (drop 8 url))"
  "OrgRepositories_Get example_world = (\<lambda>c r. Inr r)"
  "PullRequests_List example_world =
        Inr [\<lparr>Number = 9, WebURL = ''https://github.com/acme/overlay-prod/pull/9'',
              SourceBranch = ''promotion/other-2023-01-01-00-00-00''\<rparr>]"
  "PullRequests_Get example_world = (\<lambda>n.
        Inr \<lparr>Number = n, WebURL = ''https://github.com/acme/overlay-prod/pull/9'',
             SourceBranch = ''promotion/other-2023-01-01-00-00-00''\<rparr>)"
  "PullRequests_Create example_world = (\<lambda>title branch base body.
        Inr \<lparr>Number = 12, WebURL = ''https://github.com/acme/overlay-prod/pull/12'',
             SourceBranch = branch\<rparr>)"
  "PullRequests_Edit example_world = (\<lambda>n title.
        Inr \<lparr>Number = n, WebURL = ''https://github.com/acme/overlay-prod/pull/9'',
             SourceBranch = ''promotion/other-2023-01-01-00-00-00''\<rparr>)"
  "fault example_world = (\<lambda>st. None)"
  "branch_head example_world = (\<lambda>b. ''77aa01bb23cc45dd67ee89ff00112233445566aa'')"
  "checkout_files example_world = (\<lambda>b f. f)"
  "Worktree_Status example_world = (\<lambda>i. Inr (i \<noteq> 1))"
  "Worktree_Commit example_world = (\<lambda>i. Inr ''e5d4c3b2a1908f7e6d5c4b3a29180f7e6d5c4b3a'')"
  "lstat_fault example_world = (\<lambda>root unsafePath. None)"
  "now_formatted example_world = ''2023-05-17-09-30-00''"
  by (simp_all add: example_world_def)

lemmas run_defs =
  Reconcile_def initial_state_def deferring_def reconcile_environments_def get_obj_def
  get_environment_def IsReady_def reconcile_ready_def TempDirForObj_def GitCloneEnvironment_def
  SetupGitAuthEnvironment_def cloned_def GetBranch_def os_RemoveAll_def
  deferred_status_update_def andThen_def promote_def resolve_request_def
  NewGitProviderOrgRepository_def repo_Head_def isPROpen_of_def acquire_branch_def
  checked_out_def copy_step_def SecureJoin_def filepath_Join_def components_def
  CopyOperation_def fs_Exists_def os_Stat_def os_MkdirAll_def fs_Copy_def fs_CopyDirectory_def
  mkdir_all_def copy_tree_def remove_tree_def
  filepath_Dir_def filepath_Base_def set_head_def modify_obj_def commit_message_def
  sync_request_def pr_title_def PromotionReady_def GitProviderGitHub_def

lemmas example_defs =
  example_world_sel example_promotion_def example_dev_def example_prod_def example_copy_def
  example_tree_def example_clone_def ready_conditions_def empty_fs_def

text \<open>
  A relation between the state before and after is preserved by an action when it is
  preserved on every path through it, failing or not.
\<close>

lemma Find_Set: "FindStatusCondition (SetStatusCondition cs n) (cond_Type n) = Some n"
  by (induction cs) auto

lemma ReadyTrue_PromotionReady [simp]: "ReadyTrue (PromotionReady p r m)"
  by (simp add: ReadyTrue_def PromotionReady_def Find_Set[of _ "\<lparr>cond_Type = ReadyCondition, cond_Status = ConditionTrue, cond_Reason = r, cond_Message = m\<rparr>", simplified])

lemma preorder_keeps [simp]: "preorder keeps"
  unfolding preorder_def keeps_def ReadyTrue_def by auto

lemma preorder_calm [simp]: "preorder calm"
  unfolding preorder_def calm_def by auto

lemma preserves_ret: "preorder R \<Longrightarrow> preserves R (ret x)"
  and preserves_throw: "preorder R \<Longrightarrow> preserves R (throw e)"
  and preserves_lift: "preorder R \<Longrightarrow> preserves R (lift r)"
  and preserves_check: "preorder R \<Longrightarrow> preserves R (check c)"
  and preserves_get_obj: "preorder R \<Longrightarrow> preserves R get_obj"
  and preserves_repo_Head: "preorder R \<Longrightarrow> preserves R (repo_Head w st repo)"
  by (auto simp: preserves_def preorder_def check_def get_obj_def repo_Head_def split: option.split)

lemma preserves_andThen:
  assumes "preorder R" "preserves R m" "\<And>x. preserves R (f x)"
  shows "preserves R (andThen m f)"
  unfolding preserves_def
proof
  fix s
  obtain r s1 where ms: "m s = (r, s1)" by (cases "m s")
  have 1: "R s s1" using assms(2) ms by (auto simp: preserves_def dest: spec[of _ s])
  show "R s (snd (andThen m f s))"
  proof (cases r)
    case (Inl e)
    then show ?thesis using ms 1 by simp
  next
    case (Inr x)
    have "R s1 (snd (f x s1))" using assms(3)[of x] by (simp add: preserves_def)
    with 1 assms(1) have "R s (snd (f x s1))" unfolding preorder_def by blast
    then show ?thesis using ms Inr by simp
  qed
qed

lemma preserves_andThen_lift:
  "preorder R \<Longrightarrow> (\<And>x. r = Inr x \<Longrightarrow> preserves R (f x)) \<Longrightarrow> preserves R (andThen (lift r) f)"
  unfolding preserves_def preorder_def andThen_def
  by (cases r) auto

lemma preserves_deferring:
  assumes "preorder R" "preserves R m" "\<And>s. R s (c s)"
  shows "preserves R (deferring c m)"
  unfolding preserves_def
proof
  fix s
  obtain r s1 where ms: "m s = (r, s1)" by (cases "m s")
  have "R s s1" using assms(2) ms by (auto simp: preserves_def dest: spec[of _ s])
  moreover have "R s1 (c s1)" by (rule assms(3))
  ultimately have "R s (c s1)" using assms(1) unfolding preorder_def by blast
  then show "R s (snd (deferring c m s))" using ms by (simp add: deferring_def)
qed

lemma preserves_if:
  "preserves R a \<Longrightarrow> preserves R b \<Longrightarrow> preserves R (if c then a else b)"
  by simp

lemma preserves_case_option:
  "preserves R a \<Longrightarrow> (\<And>x. preserves R (b x)) \<Longrightarrow> preserves R (case_option a b v)"
  by (cases v) auto

lemma preserves_case_sum:
  "(\<And>x. preserves R (a x)) \<Longrightarrow> (\<And>x. preserves R (b x)) \<Longrightarrow> preserves R (case_sum a b v)"
  by (cases v) auto

lemma preserves_case_prod:
  "(\<And>x y. preserves R (f x y)) \<Longrightarrow> preserves R (case_prod f v)"
  by (cases v) auto

lemmas preserves_intros =
  preserves_ret preserves_throw preserves_lift preserves_check preserves_get_obj
  preserves_repo_Head preserves_andThen preserves_deferring preserves_if
  preserves_case_option preserves_case_sum preserves_case_prod

lemma keeps_modify_ready: "preserves keeps (modify_obj (\<lambda>p. PromotionReady p r m))"
proof -
  have "Name (PromotionReady p r m) = Name p \<and> Namespace (PromotionReady p r m) = Namespace p \<and>
        Generation (PromotionReady p r m) = Generation p \<and> Spec (PromotionReady p r m) = Spec p" for p
    by (simp add: PromotionReady_def)
  then show ?thesis
    by (simp add: preserves_def keeps_def modify_obj_def)
qed

lemma keeps_modify_pr:
  "preserves keeps (modify_obj (\<lambda>p. p\<lparr>Status := (Status p)\<lparr>LastPullRequestNumber := n', LastPullRequestURL := u'\<rparr>\<rparr>))"
  by (simp add: preserves_def keeps_def modify_obj_def ReadyTrue_def)

lemma keeps_emit: "\<not> is_store_write ev \<Longrightarrow> preserves keeps (emit ev)"
  by (simp add: preserves_def keeps_def)

lemma keeps_prims:
  "preserves keeps (set_head repo h)"
  "preserves keeps (checked_out w repo b)"
  "preserves keeps (cloned w d u b a)"
  "preserves keeps (TempDirForObj w n)"
  "preserves keeps (fs_Exists p)"
  "preserves keeps (os_Stat p)"
  "preserves keeps (os_MkdirAll p)"
  "preserves keeps (fs_Copy p q)"
  "preserves keeps (fs_CopyDirectory p q)"
  by (simp_all add: preserves_def keeps_def set_head_def checked_out_def cloned_def TempDirForObj_def
      fs_Exists_def os_Stat_def os_MkdirAll_def fs_Copy_def fs_CopyDirectory_def
      split: sum.split option.split node.split prod.split)

lemmas keeps_intros = preserves_intros keeps_prims keeps_emit keeps_modify_ready keeps_modify_pr

lemma keeps_CopyOperation: "preserves keeps (CopyOperation a b)"
  unfolding CopyOperation_def Let_def
  by (intro keeps_intros preorder_keeps)

lemma keeps_NewGitProviderOrgRepository: "preserves keeps (NewGitProviderOrgRepository w e r)"
  unfolding NewGitProviderOrgRepository_def
  by (intro keeps_intros preorder_keeps) simp

lemma keeps_GitCloneEnvironment: "preserves keeps (GitCloneEnvironment w e d)"
  unfolding GitCloneEnvironment_def
  by (intro keeps_intros preorder_keeps) simp

lemma keeps_resolve_request: "preserves keeps (resolve_request w e a b)"
  unfolding resolve_request_def
  by (intro keeps_intros preorder_keeps keeps_NewGitProviderOrgRepository) simp

lemma keeps_acquire_branch: "preserves keeps (acquire_branch w r u isOpen)"
  unfolding acquire_branch_def
  by (intro keeps_intros preorder_keeps) simp_all

lemma keeps_copy_step: "preserves keeps (copy_step w v i c acc)"
  unfolding copy_step_def
  by (intro keeps_intros preorder_keeps keeps_CopyOperation) simp_all

lemma keeps_copy_loop: "preserves keeps (copy_loop w v i ops acc)"
proof (induction ops arbitrary: i acc)
  case Nil
  show ?case by (simp add: preserves_def ret_def[abs_def] keeps_def ReadyTrue_def)
next
  case (Cons c ops)
  show ?case
    unfolding copy_loop.simps
    by (intro preserves_andThen preorder_keeps keeps_copy_step Cons.IH)
qed

lemma keeps_sync_request: "preserves keeps (sync_request w a b r isOpen pr br h subj)"
  unfolding sync_request_def
  by (intro keeps_intros preorder_keeps) simp_all

lemma keeps_promote: "preserves keeps (promote w a b c d)"
  unfolding promote_def
  by (intro keeps_intros preorder_keeps keeps_resolve_request keeps_acquire_branch
      keeps_copy_loop keeps_sync_request)

lemma keeps_os_RemoveAll: "keeps s (os_RemoveAll d s)"
  by (simp add: keeps_def os_RemoveAll_def)

lemma keeps_reconcile_ready: "preserves keeps (reconcile_ready w a b)"
  unfolding reconcile_ready_def
  by (intro keeps_intros preorder_keeps keeps_GitCloneEnvironment keeps_promote keeps_os_RemoveAll)

lemma keeps_get_environment:
  "(\<And>e. preserves keeps (k e)) \<Longrightarrow> preserves keeps (get_environment w r k)"
  unfolding get_environment_def
  by (intro keeps_intros preorder_keeps)

lemma keeps_reconcile_environments: "preserves keeps (reconcile_environments w)"
  unfolding reconcile_environments_def
  by (intro keeps_intros preorder_keeps keeps_get_environment keeps_reconcile_ready)






lemma preorder_quiet [simp]: "preorder quiet"
  unfolding preorder_def quiet_def calm_def by auto

lemma preorder_still [simp]: "preorder still"
  unfolding preorder_def still_def calm_def by auto

lemma still_quiet: "preserves still m \<Longrightarrow> preserves quiet m"
  by (simp add: preserves_def still_def quiet_def)

lemma still_emit: "\<not> change_event ev \<Longrightarrow> preserves still (emit ev)"
  by (simp add: preserves_def still_def calm_def)

lemma quiet_emit: "\<not> change_event ev \<Longrightarrow> preserves quiet (emit ev)"
  by (simp add: preserves_def quiet_def calm_def)

lemma still_prims:
  "preserves still (fs_Exists p)"
  "preserves still (os_Stat p)"
  "preserves still (os_MkdirAll p)"
  "preserves still (fs_Copy p q)"
  "preserves still (fs_CopyDirectory p q)"
  by (simp_all add: preserves_def still_def calm_def
      fs_Exists_def os_Stat_def os_MkdirAll_def fs_Copy_def fs_CopyDirectory_def
      split: sum.split option.split node.split prod.split)

lemma quiet_prims:
  "preserves quiet (checked_out w repo b)"
  "preserves quiet (cloned w d u b a)"
  "preserves quiet (TempDirForObj w n)"
  by (simp_all add: preserves_def quiet_def calm_def checked_out_def cloned_def TempDirForObj_def
      split: sum.split option.split node.split prod.split)

lemma still_CopyOperation: "preserves still (CopyOperation a b)"
  unfolding CopyOperation_def Let_def
  by (intro preserves_intros still_prims preorder_still)

lemma still_after_status:
  assumes "\<forall>i. Worktree_Status w i \<noteq> Inr False"
  shows "preserves still
           (andThen (lift (Worktree_Status w i)) (\<lambda>isClean. if isClean then ret acc else m))"
proof (rule preserves_andThen_lift[OF preorder_still])
  fix x
  assume "Worktree_Status w i = Inr x"
  with assms have "x" by (cases x) auto
  then show "preserves still (if x then ret acc else m)"
    by (simp add: preserves_ret)
qed

lemma still_copy_step:
  assumes "\<forall>i. Worktree_Status w i \<noteq> Inr False"
  shows "preserves still (copy_step w v i c acc)"
  unfolding copy_step_def
  apply (intro preserves_andThen_lift preorder_still)
  apply (rule preserves_andThen[OF preorder_still still_emit], simp)
  apply (rule preserves_andThen[OF preorder_still still_CopyOperation])
  apply (rule preserves_andThen[OF preorder_still still_emit], simp)
  apply (rule still_after_status[OF assms])
  done

lemma still_copy_loop:
  assumes "\<forall>i. Worktree_Status w i \<noteq> Inr False"
  shows "preserves still (copy_loop w v i ops acc)"
proof (induction ops arbitrary: i acc)
  case Nil
  show ?case by (simp add: preserves_def still_def calm_def)
next
  case (Cons c ops)
  show ?case
    unfolding copy_loop.simps
    by (intro preserves_andThen preorder_still still_copy_step assms Cons.IH)
qed

lemma quiet_NewGitProviderOrgRepository: "preserves quiet (NewGitProviderOrgRepository w e r)"
  unfolding NewGitProviderOrgRepository_def
  by (intro preserves_intros quiet_emit preorder_quiet) simp

lemma quiet_GitCloneEnvironment: "preserves quiet (GitCloneEnvironment w e d)"
  unfolding GitCloneEnvironment_def
  by (intro preserves_intros quiet_prims quiet_emit preorder_quiet) simp

lemma quiet_resolve_request: "preserves quiet (resolve_request w e a b)"
  unfolding resolve_request_def
  by (intro preserves_intros quiet_emit preorder_quiet quiet_NewGitProviderOrgRepository) simp

lemma quiet_acquire_branch: "preserves quiet (acquire_branch w r u isOpen)"
  unfolding acquire_branch_def
  by (intro preserves_intros quiet_prims quiet_emit preorder_quiet) simp_all

lemma sync_request_same_head:
  "heads s td = Some h \<Longrightarrow>
   sync_request w a b td isOpen pr br h subj s =
     (case fault w Head_after of
        Some e \<Rightarrow> (Inl e, s)
      | None \<Rightarrow>
          (Inr 300,
           s\<lparr>obj := (if isOpen
                     then PromotionReady (obj s) SucceededReason ''A pull request is open for review.''
                     else PromotionReady
                            (PromotionReady (obj s) SucceededReason
                               ''A pull request is open for review.'')
                            SucceededReason
                            ''Source and target environments are in sync, nothing to promote.'')\<rparr>))"
  by (simp add: sync_request_def repo_Head_def andThen_def modify_obj_def split: option.split)

lemma calm_tail:
  assumes "\<forall>i. Worktree_Status w i \<noteq> Inr False"
  shows "preserves calm
           (andThen (repo_Head w Head_before td) (\<lambda>beforeHead.
            andThen (copy_loop w v 0 ops []) (\<lambda>promotedSubjects.
              sync_request w a b td isOpen pr br beforeHead promotedSubjects)))"
  unfolding preserves_def
proof
  fix s
  show "calm s (snd (andThen (repo_Head w Head_before td) (\<lambda>beforeHead.
            andThen (copy_loop w v 0 ops []) (\<lambda>promotedSubjects.
              sync_request w a b td isOpen pr br beforeHead promotedSubjects)) s))"
  proof (cases "repo_Head w Head_before td s")
    case (Pair r s1)
    then have s1: "s1 = s" by (auto simp: repo_Head_def split: option.splits)
    show ?thesis
    proof (cases r)
      case (Inl e)
      with Pair s1 show ?thesis by (simp add: calm_def)
    next
      case (Inr h)
      with Pair s1 have h: "heads s td = Some h" by (auto simp: repo_Head_def split: option.splits)
      obtain r3 s3 where loop: "copy_loop w v 0 ops [] s = (r3, s3)"
        by (cases "copy_loop w v 0 ops [] s")
      have st: "still s s3"
        using still_copy_loop[OF assms, of v 0 ops "[]"] loop by (auto simp: preserves_def dest: spec[of _ s])
      show ?thesis
      proof (cases r3)
        case (Inl e)
        with Pair Inr s1 loop st show ?thesis by (simp add: still_def)
      next
        case subj: (Inr subj)
        have "heads s3 td = Some h" using st h by (simp add: still_def)
        then have "calm s3 (snd (sync_request w a b td isOpen pr br h subj s3))"
          by (simp add: sync_request_same_head calm_def split: option.split)
        with st Pair Inr s1 loop subj show ?thesis by (simp add: still_def calm_def)
      qed
    qed
  qed
qed

lemma quiet_calm: "preserves quiet m \<Longrightarrow> preserves calm m"
  by (simp add: preserves_def quiet_def)

lemma calm_promote:
  assumes "\<forall>i. Worktree_Status w i \<noteq> Inr False"
  shows "preserves calm (promote w a b c d)"
  unfolding promote_def
  by (intro preserves_andThen preserves_case_prod preorder_calm quiet_calm[OF quiet_resolve_request]
      quiet_calm[OF quiet_acquire_branch] preserves_get_obj calm_tail assms)

lemma calm_prims:
  "preserves calm (TempDirForObj w n)"
  "calm s (os_RemoveAll d s)"
  by (simp_all add: preserves_def calm_def TempDirForObj_def os_RemoveAll_def split: sum.split)

lemma calm_reconcile_environments:
  assumes "\<forall>i. Worktree_Status w i \<noteq> Inr False"
  shows "preserves calm (reconcile_environments w)"
  unfolding reconcile_environments_def get_environment_def reconcile_ready_def
  by (intro preserves_intros preorder_calm calm_prims quiet_calm[OF quiet_GitCloneEnvironment]
      calm_promote assms)

lemma andThen_InrE:
  assumes "andThen m f s = (Inr y, s')"
  obtains x s1 where "m s = (Inr x, s1)" "f x s1 = (Inr y, s')"
  using assms by (auto simp: andThen_def split: prod.splits sum.splits)

lemma deferring_InrE:
  assumes "deferring c m s = (Inr y, s')"
  obtains s1 where "m s = (Inr y, s1)" "s' = c s1"
  using assms by (auto simp: deferring_def split: prod.splits)

lemma preservesD: "preserves R m \<Longrightarrow> m s = (r, s') \<Longrightarrow> R s s'"
  by (auto simp: preserves_def dest: spec[of _ s])

lemma still_NewGitProviderOrgRepository: "preserves still (NewGitProviderOrgRepository w e r)"
  unfolding NewGitProviderOrgRepository_def
  by (intro preserves_intros still_emit preorder_still) simp

lemma resolve_request_Inr:
  assumes "resolve_request w e a b s = (Inr (sha, auth, url, prs), s')"
  shows "PullRequests_List w = Inr prs \<and> SetupGitAuthEnvironment w e = Inr (auth, url) \<and>
         (\<exists>h. heads s a = Some h \<and> sha = take 7 h)"
proof -
  from assms obtain x s1 where 1: "NewGitProviderOrgRepository w e b s = (Inr x, s1)"
    and 2: "andThen (check (fault w Worktree_source)) (\<lambda>_.
     andThen (check (fault w Worktree_target)) (\<lambda>_.
     andThen (repo_Head w Head_source a) (\<lambda>sourceHead.
     andThen (check (fault w CommitObject_source)) (\<lambda>_.
     andThen (lift (SetupGitAuthEnvironment w e)) (\<lambda>(gitAuthOpts, cloneURL).
     andThen (emit PRList) (\<lambda>_.
     andThen (lift (PullRequests_List w)) (\<lambda>prs.
     ret (take 7 sourceHead, gitAuthOpts, cloneURL, prs)))))))) s1 = (Inr (sha, auth, url, prs), s')"
    unfolding resolve_request_def by (erule andThen_InrE)
  have "heads s1 = heads s"
    using preservesD[OF still_NewGitProviderOrgRepository 1] by (simp add: still_def)
  with 2 show ?thesis
    by (auto simp: andThen_def check_def repo_Head_def split: option.splits sum.splits prod.splits)
qed

lemma promote_clean_obj:
  assumes clean: "\<forall>i. Worktree_Status w i \<noteq> Inr False"
    and run: "promote w a b sd td s = (Inr d, s')"
    and list: "PullRequests_List w = Inr prs"
  shows "obj s' =
           (if isPROpen_of (obj s) prs
            then PromotionReady (obj s) SucceededReason ''A pull request is open for review.''
            else PromotionReady
                   (PromotionReady (obj s) SucceededReason ''A pull request is open for review.'')
                   SucceededReason
                   ''Source and target environments are in sync, nothing to promote.'')"
proof -
  from run obtain r1 s1 where 1: "resolve_request w b sd td s = (Inr r1, s1)"
    and k1: "(case r1 of (sha, gitAuthOpts, cloneURL, prs) \<Rightarrow>
         andThen get_obj (\<lambda>p.
         andThen (acquire_branch w td cloneURL (isPROpen_of p prs))
           (\<lambda>(pr, branch).
         andThen (repo_Head w Head_before td) (\<lambda>beforeHead.
         andThen (copy_loop w
                    \<lparr>sourceEnvName = env_Name a,
                     targetEnvName = env_Name b,
                     sourceEnvironmentFullPath = filepath_Join sd (Path (env_Spec a)),
                     targetEnvironmentFullPath = filepath_Join td (Path (env_Spec b)),
                     targetEnvironmentRepo = td,
                     sourceEnvironmentLatestCommit = sha,
                     pushURL = cloneURL\<rparr>
                    0 (Copy (Spec p)) []) (\<lambda>promotedSubjects.
         sync_request w a b td
           (isPROpen_of p prs) pr branch beforeHead promotedSubjects))))) s1 = (Inr d, s')"
    unfolding promote_def by (erule andThen_InrE)
  obtain sha auth url prs' where r1: "r1 = (sha, auth, url, prs')" by (cases r1)
  have "PullRequests_List w = Inr prs'" using resolve_request_Inr[OF 1[unfolded r1]] by simp
  with list have prs: "prs' = prs" by simp
  have o1: "obj s1 = obj s" using preservesD[OF quiet_resolve_request 1] by (simp add: quiet_def)
  define v where "v = \<lparr>sourceEnvName = env_Name a,
                     targetEnvName = env_Name b,
                     sourceEnvironmentFullPath = filepath_Join sd (Path (env_Spec a)),
                     targetEnvironmentFullPath = filepath_Join td (Path (env_Spec b)),
                     targetEnvironmentRepo = td,
                     sourceEnvironmentLatestCommit = sha,
                     pushURL = url\<rparr>"
  from k1 obtain r2 s2 where 2: "acquire_branch w td url (isPROpen_of (obj s) prs) s1 = (Inr r2, s2)"
    and k2: "(case r2 of (pr, branch) \<Rightarrow>
         andThen (repo_Head w Head_before td) (\<lambda>beforeHead.
         andThen (copy_loop w v 0 (Copy (Spec (obj s))) []) (\<lambda>promotedSubjects.
         sync_request w a b td
           (isPROpen_of (obj s) prs) pr branch beforeHead promotedSubjects))) s2 = (Inr d, s')"
    unfolding r1 prs v_def
    by (auto simp: get_obj_def o1 elim!: andThen_InrE)
  obtain pr br where r2: "r2 = (pr, br)" by (cases r2)
  have o2: "obj s2 = obj s1" using preservesD[OF quiet_acquire_branch 2] by (simp add: quiet_def)
  from k2 obtain h where 3: "heads s2 td = Some h"
    and k3: "andThen (copy_loop w v 0 (Copy (Spec (obj s))) []) (\<lambda>promotedSubjects.
         sync_request w a b td
           (isPROpen_of (obj s) prs) pr br h promotedSubjects) s2 = (Inr d, s')"
    unfolding r2
    by (auto simp: repo_Head_def split: option.splits elim!: andThen_InrE)
  from k3 obtain subj s3 where 4: "copy_loop w v 0 (Copy (Spec (obj s))) [] s2 = (Inr subj, s3)"
    and k4: "sync_request w a b td (isPROpen_of (obj s) prs) pr br h subj s3 = (Inr d, s')"
    by (erule andThen_InrE)
  have st: "still s2 s3" using preservesD[OF still_copy_loop[OF clean] 4] .
  then have "heads s3 td = Some h" using 3 by (simp add: still_def)
  from k4[unfolded sync_request_same_head[OF this]]
  have "obj s' = (if isPROpen_of (obj s) prs
            then PromotionReady (obj s3) SucceededReason ''A pull request is open for review.''
            else PromotionReady
                   (PromotionReady (obj s3) SucceededReason ''A pull request is open for review.'')
                   SucceededReason
                   ''Source and target environments are in sync, nothing to promote.'')"
    by (auto split: option.splits)
  moreover have "obj s3 = obj s" using st o2 o1 by (simp add: still_def)
  ultimately show ?thesis by simp
qed

section \<open>Credential resolution\<close>

text \<open>
  An occurrence of a pattern that ends in a character found nowhere before it is the
  first occurrence, so \<open>strings.Replace\<close> with count 1 rewrites exactly that one.
\<close>

lemma no_early_match:
  assumes "x \<notin> set u" "x \<notin> set pre" "pre \<noteq> []"
  shows "\<not> prefix (u @ [x]) (pre @ u @ x # rest)"
proof
  assume "prefix (u @ [x]) (pre @ u @ x # rest)"
  then obtain zs where eq: "pre @ u @ x # rest = (u @ [x]) @ zs"
    by (auto simp: prefix_def)
  have "(pre @ u @ x # rest) ! length u = x"
    by (simp add: eq nth_append)
  moreover have "(pre @ u @ x # rest) ! length u \<in> set pre \<union> set u"
  proof (cases "length u < length pre")
    case True
    then show ?thesis by (simp add: nth_append)
  next
    case False
    with assms(3) have "length u - length pre < length u"
      by (cases pre) auto
    with False show ?thesis by (simp add: nth_append)
  qed
  ultimately show False using assms by auto
qed

lemma Replace1_first:
  assumes "x \<notin> set u" "x \<notin> set pre"
  shows "strings_Replace1 (pre @ u @ x # rest) (u @ [x]) new = pre @ new @ rest"
  using assms
proof (induction pre)
  case Nil
  then show ?case by (cases u) auto
next
  case (Cons c pre)
  have "\<not> prefix (u @ [x]) ((c # pre) @ u @ x # rest)"
    using no_early_match[of x u "c # pre" rest] Cons.prems by simp
  then show ?case using Cons by simp
qed

lemma Replace1_prefix: "old \<noteq> [] \<Longrightarrow> strings_Replace1 (old @ s) old new = new @ s"
  by (cases old) auto

text \<open>
  Claim C7, as amended.  Without a credential-secret reference \<open>SetupGitAuthEnvironment\<close>
  returns the URL unchanged and no auth handle.  With a reference whose secret and key
  are found, it returns an SSH handle with user \<open>git\<close> and host-key verification disabled,
  and the clone URL \<open>git@host.com:rest\<close> for an URL \<open>https://host.com/rest\<close>: the rewrite
  of the separator after the host is tied to hosts that end in \<open>.com\<close>.
\<close>

theorem SetupGitAuthEnvironment_rewrite:
  "(SecretRef (Source (env_Spec e)) = None \<longrightarrow>
      SetupGitAuthEnvironment w e = Inr (None, URL (Source (env_Spec e)))) \<and>
   (SecretRef (Source (env_Spec e)) = Some n \<and> kube_secret w n = Inr sshSecret \<and>
    ParsePrivateKey w (sshSecret ''private'') = Inr sshSigner \<and>
    URL (Source (env_Spec e)) = ''https://'' @ host @ ''.com/'' @ rest \<and>
    CHR ''/'' \<notin> set host \<longrightarrow>
      SetupGitAuthEnvironment w e =
        Inr (Some \<lparr>User = ''git'', Signer = sshSigner, HostKeyCallback = InsecureIgnoreHostKey\<rparr>,
             ''git@'' @ host @ ''.com:'' @ rest))"
proof (intro conjI impI)
  assume "SecretRef (Source (env_Spec e)) = None"
  then show "SetupGitAuthEnvironment w e = Inr (None, URL (Source (env_Spec e)))"
    by (simp add: SetupGitAuthEnvironment_def)
next
  assume a: "SecretRef (Source (env_Spec e)) = Some n \<and> kube_secret w n = Inr sshSecret \<and>
    ParsePrivateKey w (sshSecret ''private'') = Inr sshSigner \<and>
    URL (Source (env_Spec e)) = ''https://'' @ host @ ''.com/'' @ rest \<and>
    CHR ''/'' \<notin> set host"
  have 1: "strings_Replace1 (''https://'' @ host @ ''.com/'' @ rest) ''https://'' ''git@''
             = ''git@'' @ host @ ''.com/'' @ rest"
    by (rule Replace1_prefix) simp
  have 2: "strings_Replace1 ((''git@'' @ host) @ ''.com'' @ CHR ''/'' # rest)
               (''.com'' @ [CHR ''/'']) ''.com:''
             = (''git@'' @ host) @ ''.com:'' @ rest"
    using a by (intro Replace1_first) auto
  from a 1 2 show "SetupGitAuthEnvironment w e =
        Inr (Some \<lparr>User = ''git'', Signer = sshSigner, HostKeyCallback = InsecureIgnoreHostKey\<rparr>,
             ''git@'' @ host @ ''.com:'' @ rest)"
    by (simp add: SetupGitAuthEnvironment_def)
qed

theorem SetupGitAuthEnvironment_rewrite_witness:
  "SetupGitAuthEnvironment example_world example_dev
     = Inr (None, ''https://github.com/acme/overlay-dev'') \<and>
   SetupGitAuthEnvironment example_world example_prod
     = Inr (Some \<lparr>User = ''git'', Signer = ''ssh-rsa gitopsprombot'',
                  HostKeyCallback = InsecureIgnoreHostKey\<rparr>,
            ''git@github.com:acme/overlay-prod'')"
  using SetupGitAuthEnvironment_rewrite [of example_dev example_world]
    SetupGitAuthEnvironment_rewrite [of example_prod example_world "''prod-ssh''"
       "\<lambda>k. ''bytes of '' @ k" "''ssh-rsa gitopsprombot''" "''github''" "''acme/overlay-prod''"]
  by (simp add: example_dev_def example_prod_def example_world_def)

text \<open>
  Claim C7 as stated fails for a host that does not end in \<open>.com\<close>: the URL
  \<open>https://gitlab.example.org/team/app\<close> becomes \<open>git@gitlab.example.org/team/app\<close>, with
  the slash after the host left in place.
\<close>

theorem SetupGitAuthEnvironment_other_host_counterexample:
  "SetupGitAuthEnvironment example_world example_gitlab
     = Inr (Some \<lparr>User = ''git'', Signer = ''ssh-rsa gitopsprombot'',
                  HostKeyCallback = InsecureIgnoreHostKey\<rparr>,
            ''git@gitlab.example.org/team/app'') \<and>
   ''git@gitlab.example.org/team/app'' \<noteq> ''git@'' @ ''gitlab.example.org'' @ '':'' @ ''team/app''"
  by (simp add: SetupGitAuthEnvironment_def example_gitlab_def example_prod_def
      example_world_def)

section \<open>Provider selection\<close>

text \<open>
  Claim C10.  For an Environment whose \<open>gitProvider\<close> is not \<open>github\<close> (the empty string
  included), \<open>NewGitProviderOrgRepository\<close> never returns an error of provider selection:
  unless the token secret or the URL fails first, it goes on with a nil provider client
  and the repository lookup dereferences nil.  No call reaches the provider.
\<close>

theorem NewGitProviderOrgRepository_unknown_provider:
  "GitProvider (env_Spec e) \<noteq> GitProviderGitHub \<Longrightarrow>
   NewGitProviderOrgRepository w e repo s =
     (case (case ApiTokenSecretRef (env_Spec e) of
              None \<Rightarrow> Inr (\<lambda>k. [])
            | Some n \<Rightarrow> kube_secret w n) of
        Inl err \<Rightarrow> (Inl err, s)
      | Inr tokenSecret \<Rightarrow>
          (case ParseOrgRepositoryURL w (URL (Source (env_Spec e))) of
             Inl err \<Rightarrow> (Inl err, s)
           | Inr ref \<Rightarrow> (Inl NilDereference, s)))"
  by (simp add: NewGitProviderOrgRepository_def andThen_def split: option.split sum.split)

theorem NewGitProviderOrgRepository_unknown_provider_witness:
  "GitProvider (env_Spec example_dev) \<noteq> GitProviderGitHub \<and>
   NewGitProviderOrgRepository example_world example_dev [''tmp'', ''target''] example_workspace
     = (Inl NilDereference, example_workspace)"
proof -
  have h: "GitProvider (env_Spec example_dev) \<noteq> GitProviderGitHub"
    by (simp add: example_dev_def GitProviderGitHub_def)
  show ?thesis
    using h NewGitProviderOrgRepository_unknown_provider
      [OF h, of example_world "[''tmp'', ''target'']" example_workspace]
    by (simp add: example_dev_def example_world_def)
qed

section \<open>Copying a file\<close>

lemma CopyOperation_target_missing:
  "files s copySource = Some (File c) \<Longrightarrow> files s copyTarget = None \<Longrightarrow>
   CopyOperation copySource copyTarget s = (Inl (ENOENT copyTarget), s)"
  by (simp add: CopyOperation_def fs_Exists_def os_Stat_def andThen_def)

text \<open>
  Claim C6 does not hold of the code.  The source is an existing file and the target
  path does not exist yet, while its parent directory does: \<open>CopyOperation\<close> returns the
  error of \<open>os.Stat\<close> on the target and copies nothing, although the statements after it
  would create missing directories and write the file.
\<close>

theorem CopyOperation_new_target_fails:
  "files example_workspace [''source'', ''kustomization.yaml''] = Some (File ''tag: v2'') \<and>
   files example_workspace [''target'', ''app-version''] = Some Dir \<and>
   files example_workspace [''target'', ''app-version'', ''kustomization.yaml''] = None \<and>
   CopyOperation [''source'', ''kustomization.yaml'']
       [''target'', ''app-version'', ''kustomization.yaml''] example_workspace
     = (Inl (ENOENT [''target'', ''app-version'', ''kustomization.yaml'']), example_workspace)"
  by (simp add: CopyOperation_def fs_Exists_def os_Stat_def andThen_def example_workspace_def)

section \<open>What a reconcile attempt writes\<close>

lemma keeps_Reconcile_body: "keeps s (snd (reconcile_environments w s))"
  using keeps_reconcile_environments by (simp add: preserves_def)


text \<open>
  Claim C9.  Whatever the collaborators answer and on whatever path the attempt ends:
  if the Promotion cannot be fetched nothing at all is done; otherwise the object the
  attempt ends with has the name, namespace, generation and spec of the object fetched,
  and the only write to the resource store is a single status update of that object.
  No call in the attempt deletes an object or writes an Environment.
\<close>

theorem Reconcile_writes_status_only:
  "(case kube_promotion w of
      Inl err \<Rightarrow> trace (snd (Reconcile w fs0)) = []
    | Inr p \<Rightarrow>
        Name (obj (snd (Reconcile w fs0))) = Name p \<and>
        Namespace (obj (snd (Reconcile w fs0))) = Namespace p \<and>
        Generation (obj (snd (Reconcile w fs0))) = Generation p \<and>
        Spec (obj (snd (Reconcile w fs0))) = Spec p \<and>
        filter is_store_write (trace (snd (Reconcile w fs0)))
          = [StatusUpdate (obj (snd (Reconcile w fs0)))])"
proof (cases "kube_promotion w")
  case (Inl err)
  then show ?thesis by (simp add: Reconcile_def initial_state_def)
next
  case (Inr p)
  define s0 where "s0 = (initial_state fs0)\<lparr>obj := p\<rparr>"
  obtain r s1 where run: "reconcile_environments w s0 = (r, s1)"
    by (cases "reconcile_environments w s0")
  have k: "keeps s0 s1" using keeps_Reconcile_body[of s0 w] run by simp
  have s': "snd (Reconcile w fs0) = deferred_status_update s1"
    using Inr run by (simp add: Reconcile_def deferring_def s0_def split: sum.split)
  have "trace s0 = []" "obj s0 = p" by (simp_all add: s0_def initial_state_def)
  with k show ?thesis
    using Inr by (simp add: s' keeps_def deferred_status_update_def)
qed

theorem Reconcile_writes_status_only_witness:
  "Spec (obj (snd (Reconcile unreachable_world empty_fs))) = Spec example_promotion \<and>
   filter is_store_write (trace (snd (Reconcile unreachable_world empty_fs)))
     = [StatusUpdate (obj (snd (Reconcile unreachable_world empty_fs)))]"
  using Reconcile_writes_status_only [of unreachable_world empty_fs]
  by (simp add: unreachable_world_def example_world_def)

section \<open>What a failed attempt reports\<close>




section \<open>Waiting for the environments, and the steady state\<close>



lemma eval_converged:
  "(case Reconcile converged_world empty_fs of
      (r, s) \<Rightarrow> (r, filter change_event (trace s), PromotionReadyMessage (obj s)))
     = ((300, None), [], ''Source and target environments are in sync, nothing to promote.'')"
  by (simp add: run_defs example_defs converged_world_def PromotionReadyMessage_def)



section \<open>Idempotence\<close>

lemma Reconcile_300_E:
  assumes "fst (Reconcile w fs0) = (300, None)"
  obtains p a b src tgt sd td s0 s1 where
    "kube_promotion w = Inr p"
    "SourceEnvironmentRef (Spec p) = Some a" "kube_environment w a = Inr src"
    "TargetEnvironmentRef (Spec p) = Some b" "kube_environment w b = Inr tgt"
    "temp_dir w 0 = Inr sd" "temp_dir w 1 = Inr td"
    "obj s0 = p" "promote w src tgt sd td s0 = (Inr 300, s1)"
    "snd (Reconcile w fs0) = deferred_status_update (os_RemoveAll sd (os_RemoveAll td s1))"
proof -
  from assms obtain p where p: "kube_promotion w = Inr p"
    by (cases "kube_promotion w") (auto simp: Reconcile_def)
  define s00 where "s00 = (initial_state fs0)\<lparr>obj := p\<rparr>"
  obtain r s2 where body: "reconcile_environments w s00 = (r, s2)"
    by (cases "reconcile_environments w s00")
  have r: "r = Inr 300" and s': "snd (Reconcile w fs0) = deferred_status_update s2"
    using assms p body by (auto simp: Reconcile_def deferring_def s00_def split: sum.splits)
  have o00: "obj s00 = p" by (simp add: s00_def)
  from body[unfolded r] obtain a src b tgt where
    env: "SourceEnvironmentRef (Spec p) = Some a" "kube_environment w a = Inr src"
      "TargetEnvironmentRef (Spec p) = Some b" "kube_environment w b = Inr tgt"
    and ready: "reconcile_ready w src tgt s00 = (Inr 300, s2)"
    by (auto simp: reconcile_environments_def get_obj_def get_environment_def andThen_def o00
        split: option.splits sum.splits if_splits)
  from ready obtain sd sa where t1: "TempDirForObj w 0 s00 = (Inr sd, sa)"
    and k1: "deferring (os_RemoveAll sd)
       (andThen (GitCloneEnvironment w src sd) (\<lambda>sourceEnvironmentRepo.
        andThen (TempDirForObj w 1) (\<lambda>targetTmpDir.
        deferring (os_RemoveAll targetTmpDir)
          (andThen (GitCloneEnvironment w tgt targetTmpDir) (\<lambda>targetEnvironmentRepo.
           promote w src tgt sourceEnvironmentRepo targetEnvironmentRepo))))) sa = (Inr 300, s2)"
    unfolding reconcile_ready_def by (erule andThen_InrE)
  from k1 obtain sx where k1': "andThen (GitCloneEnvironment w src sd) (\<lambda>sourceEnvironmentRepo.
        andThen (TempDirForObj w 1) (\<lambda>targetTmpDir.
        deferring (os_RemoveAll targetTmpDir)
          (andThen (GitCloneEnvironment w tgt targetTmpDir) (\<lambda>targetEnvironmentRepo.
           promote w src tgt sourceEnvironmentRepo targetEnvironmentRepo)))) sa = (Inr 300, sx)"
    and s2: "s2 = os_RemoveAll sd sx"
    by (erule deferring_InrE)
  from k1' obtain repo1 sb where c1: "GitCloneEnvironment w src sd sa = (Inr repo1, sb)"
    and k2: "andThen (TempDirForObj w 1) (\<lambda>targetTmpDir.
        deferring (os_RemoveAll targetTmpDir)
          (andThen (GitCloneEnvironment w tgt targetTmpDir) (\<lambda>targetEnvironmentRepo.
           promote w src tgt repo1 targetEnvironmentRepo))) sb = (Inr 300, sx)"
    by (erule andThen_InrE)
  have repo1: "repo1 = sd"
    using c1 by (auto simp: GitCloneEnvironment_def cloned_def andThen_def
        split: sum.splits prod.splits)
  from k2 obtain td sc where t2: "TempDirForObj w 1 sb = (Inr td, sc)"
    and k3: "deferring (os_RemoveAll td)
          (andThen (GitCloneEnvironment w tgt td) (\<lambda>targetEnvironmentRepo.
           promote w src tgt repo1 targetEnvironmentRepo)) sc = (Inr 300, sx)"
    by (erule andThen_InrE)
  from k3 obtain s1 where k3': "andThen (GitCloneEnvironment w tgt td) (\<lambda>targetEnvironmentRepo.
           promote w src tgt repo1 targetEnvironmentRepo) sc = (Inr 300, s1)"
    and sx: "sx = os_RemoveAll td s1"
    by (erule deferring_InrE)
  from k3' obtain repo2 s0 where c2: "GitCloneEnvironment w tgt td sc = (Inr repo2, s0)"
    and run: "promote w src tgt repo1 repo2 s0 = (Inr 300, s1)"
    by (erule andThen_InrE)
  have repo2: "repo2 = td"
    using c2 by (auto simp: GitCloneEnvironment_def cloned_def andThen_def
        split: sum.splits prod.splits)
  have td1: "temp_dir w 0 = Inr sd" "obj sa = obj s00"
    using t1 by (auto simp: TempDirForObj_def split: sum.splits)
  have td2: "temp_dir w 1 = Inr td" "obj sc = obj sb"
    using t2 by (auto simp: TempDirForObj_def split: sum.splits)
  have "obj sb = obj sa" using preservesD[OF quiet_GitCloneEnvironment c1] by (simp add: quiet_def)
  moreover have "obj s0 = obj sc" using preservesD[OF quiet_GitCloneEnvironment c2] by (simp add: quiet_def)
  ultimately have o0: "obj s0 = p" using td1 td2 o00 by simp
  show ?thesis
    using that[OF p env td1(1) td2(1) o0 run[unfolded repo1 repo2]] s' s2 sx by simp
qed

lemma Message_PromotionReady [simp]: "PromotionReadyMessage (PromotionReady p r m) = m"
  by (simp add: PromotionReadyMessage_def PromotionReady_def
      Find_Set[of _ "\<lparr>cond_Type = ReadyCondition, cond_Status = ConditionTrue,
                       cond_Reason = r, cond_Message = m\<rparr>", simplified])

lemma Message_cleanup [simp]:
  "PromotionReadyMessage (obj (deferred_status_update (os_RemoveAll a (os_RemoveAll b s))))
     = PromotionReadyMessage (obj s)"
  by (simp add: PromotionReadyMessage_def deferred_status_update_def os_RemoveAll_def)

text \<open>
  Claim C1.  In every reconcile run in which no copy operation leaves the target worktree
  dirty, whatever else the collaborators answer and wherever the run ends, no commit and
  no push is made and no pull request is created or edited.  If the run completes, the
  final Ready message is "A pull request is open for review." when the recorded request
  is open, and "Source and target environments are in sync, nothing to promote." when
  it is not.
\<close>

theorem Reconcile_idempotent:
  assumes "\<forall>i. Worktree_Status w i \<noteq> Inr False"
  shows "filter change_event (trace (snd (Reconcile w fs0))) = [] \<and>
         (\<forall>p prs. kube_promotion w = Inr p \<and> PullRequests_List w = Inr prs \<and>
            fst (Reconcile w fs0) = (300, None) \<longrightarrow>
            PromotionReadyMessage (obj (snd (Reconcile w fs0))) =
              (if isPROpen_of p prs then ''A pull request is open for review.''
               else ''Source and target environments are in sync, nothing to promote.''))"
proof (intro conjI allI impI)
  show "filter change_event (trace (snd (Reconcile w fs0))) = []"
  proof (cases "kube_promotion w")
    case (Inl e)
    then show ?thesis by (simp add: Reconcile_def initial_state_def)
  next
    case (Inr p)
    define s00 where "s00 = (initial_state fs0)\<lparr>obj := p\<rparr>"
    obtain r s2 where body: "reconcile_environments w s00 = (r, s2)"
      by (cases "reconcile_environments w s00")
    have "calm s00 s2" using preservesD[OF calm_reconcile_environments[OF assms] body] .
    moreover have "trace s00 = []" by (simp add: s00_def initial_state_def)
    moreover have "snd (Reconcile w fs0) = deferred_status_update s2"
      using Inr body by (auto simp: Reconcile_def deferring_def s00_def split: sum.splits)
    ultimately show ?thesis by (simp add: calm_def deferred_status_update_def)
  qed
next
  fix p prs
  assume a: "kube_promotion w = Inr p \<and> PullRequests_List w = Inr prs \<and>
            fst (Reconcile w fs0) = (300, None)"
  then have "fst (Reconcile w fs0) = (300, None)" by simp
  then obtain p' a' b' src tgt sd td s0 s1 where
    p': "kube_promotion w = Inr p'" and o: "obj s0 = p'"
    and run: "promote w src tgt sd td s0 = (Inr 300, s1)"
    and fin: "snd (Reconcile w fs0) = deferred_status_update (os_RemoveAll sd (os_RemoveAll td s1))"
    by (rule Reconcile_300_E)
  from a p' have pp: "p' = p" by simp
  from a have list: "PullRequests_List w = Inr prs" by simp
  show "PromotionReadyMessage (obj (snd (Reconcile w fs0))) =
              (if isPROpen_of p prs then ''A pull request is open for review.''
               else ''Source and target environments are in sync, nothing to promote.'')"
    by (simp add: fin promote_clean_obj[OF assms run list] o pp)
qed


theorem Reconcile_idempotent_witness:
  "(\<forall>i. Worktree_Status converged_world i \<noteq> Inr False) \<and>
   fst (Reconcile converged_world empty_fs) = (300, None) \<and>
   filter change_event (trace (snd (Reconcile converged_world empty_fs))) = [] \<and>
   PromotionReadyMessage (obj (snd (Reconcile converged_world empty_fs)))
     = ''Source and target environments are in sync, nothing to promote.''"
proof -
  have clean: "\<forall>i. Worktree_Status converged_world i \<noteq> Inr False"
    by (simp add: converged_world_def)
  have run: "fst (Reconcile converged_world empty_fs) = (300, None)"
    using eval_converged by (cases "Reconcile converged_world empty_fs") simp
  have "kube_promotion converged_world = Inr example_promotion"
    "PullRequests_List converged_world
       = Inr [\<lparr>Number = 9, WebURL = ''https://github.com/acme/overlay-prod/pull/9'',
               SourceBranch = ''promotion/other-2023-01-01-00-00-00''\<rparr>]"
    by (simp_all add: converged_world_def example_world_sel)
  with clean run show ?thesis
    using Reconcile_idempotent [OF clean, of empty_fs]
    by (simp add: isPROpen_of_def example_promotion_def)
qed

section \<open>The phases of a promotion, when they succeed\<close>

text \<open>
  By \<open>Reconcile_300_E\<close> a reconcile that returns the steady-state delay has run \<open>promote\<close>
  to completion from the state the two clones left.  This section follows \<open>promote\<close>
  through its phases.
\<close>

lemma preorder_only_files [simp]: "preorder only_files"
  unfolding preorder_def only_files_def by auto

lemma preorder_same_files [simp]: "preorder same_files"
  unfolding preorder_def same_files_def by auto

lemma preorder_same_request [simp]: "preorder same_request"
  unfolding preorder_def same_request_def by auto

lemma preorder_adds [simp]: "preorder (adds P)"
  unfolding preorder_def adds_def
proof (intro conjI allI impI)
  fix s show "\<exists>es. trace s = trace s @ es \<and> list_all P es" by (rule exI[of _ "[]"]) simp
next
  fix s t u
  assume "\<exists>es. trace t = trace s @ es \<and> list_all P es" "\<exists>es. trace u = trace t @ es \<and> list_all P es"
  then obtain e1 e2 where "trace t = trace s @ e1" "list_all P e1" "trace u = trace t @ e2" "list_all P e2"
    by blast
  then show "\<exists>es. trace u = trace s @ es \<and> list_all P es"
    by (intro exI[of _ "e1 @ e2"]) simp
qed

lemma only_files_prims:
  "preserves only_files (fs_Exists p)"
  "preserves only_files (os_Stat p)"
  "preserves only_files (os_MkdirAll p)"
  "preserves only_files (fs_Copy p q)"
  "preserves only_files (fs_CopyDirectory p q)"
  by (simp_all add: preserves_def only_files_def
      fs_Exists_def os_Stat_def os_MkdirAll_def fs_Copy_def fs_CopyDirectory_def
      split: sum.split option.split node.split prod.split)

lemma only_files_CopyOperation: "preserves only_files (CopyOperation a b)"
  unfolding CopyOperation_def Let_def
  by (intro preserves_intros only_files_prims preorder_only_files)

text \<open>What \<open>CopyOperation\<close> does to the filesystem depends on the filesystem alone.\<close>

lemma CopyOperation_files_cong:
  "files s = files t \<Longrightarrow> files (snd (CopyOperation a b s)) = files (snd (CopyOperation a b t))"
  by (simp add: CopyOperation_def andThen_def fs_Exists_def os_Stat_def os_MkdirAll_def
      fs_Copy_def fs_CopyDirectory_def Let_def
      split: option.split node.split)

lemma CopyOperation_files: "files (snd (CopyOperation a b s)) = copied a b (files s)"
  unfolding copied_def
  by (rule CopyOperation_files_cong) (simp add: initial_state_def)

lemma joined_Inr: "SecureJoin w root p = Inr q \<Longrightarrow> joined w root p = q"
  by (simp add: joined_def)

lemma adds_emit: "P ev \<Longrightarrow> preserves (adds P) (emit ev)"
  by (simp add: preserves_def adds_def)

lemma adds_prims:
  "preserves (adds P) (checked_out w repo b)"
  "preserves (adds P) (modify_obj f)"
  "preserves (adds P) (set_head repo h)"
  by (simp_all add: preserves_def adds_def checked_out_def modify_obj_def set_head_def)

lemma adds_only_files: "preserves only_files m \<Longrightarrow> preserves (adds P) m"
  by (simp add: preserves_def only_files_def adds_def)

lemma adds_NewGitProviderOrgRepository:
  "(\<And>r. P (ProviderRepoGet r)) \<Longrightarrow> preserves (adds P) (NewGitProviderOrgRepository w e r)"
  unfolding NewGitProviderOrgRepository_def
  by (intro preserves_intros adds_emit preorder_adds)

lemma adds_resolve_request:
  "(\<And>r. P (ProviderRepoGet r)) \<Longrightarrow> P PRList \<Longrightarrow> preserves (adds P) (resolve_request w e a b)"
  unfolding resolve_request_def
  by (intro preserves_intros adds_emit preorder_adds adds_NewGitProviderOrgRepository)

lemma adds_acquire_branch:
  "(\<And>n. P (PRGet n)) \<Longrightarrow> (\<And>u. P (GitFetch u)) \<Longrightarrow> (\<And>b c f. P (GitCheckout b c f)) \<Longrightarrow>
   preserves (adds P) (acquire_branch w r u isOpen)"
  unfolding acquire_branch_def
  by (intro preserves_intros adds_prims adds_emit preorder_adds)

lemma adds_sync_request:
  "(\<And>h' b' d. P (PRCreate (pr_title subj (env_Name a) (env_Name b)) h' b' d)) \<Longrightarrow>
   (\<And>n. P (PREdit n (pr_title subj (env_Name a) (env_Name b)))) \<Longrightarrow>
   preserves (adds P) (sync_request w a b r isOpen pr br h subj)"
  unfolding sync_request_def
  by (intro preserves_intros adds_prims adds_emit preorder_adds)

lemma adds_copy_step:
  "(\<And>ev. loop_event ev \<Longrightarrow> P ev) \<Longrightarrow> preserves (adds P) (copy_step w v i c acc)"
  unfolding copy_step_def
  by (intro preserves_intros adds_prims adds_emit preorder_adds
      adds_only_files[OF only_files_CopyOperation]) simp_all

lemma adds_copy_loop:
  assumes "\<And>ev. loop_event ev \<Longrightarrow> P ev"
  shows "preserves (adds P) (copy_loop w v i ops acc)"
proof (induction ops arbitrary: i acc)
  case Nil
  show ?case by (simp add: preserves_def adds_def)
next
  case (Cons c ops)
  show ?case
    unfolding copy_loop.simps
    by (intro preserves_andThen preorder_adds adds_copy_step assms Cons.IH)
qed

lemma same_files_prims:
  "preserves same_files (emit ev)"
  "preserves same_files (modify_obj f)"
  "preserves same_files (set_head repo h)"
  by (simp_all add: preserves_def same_files_def modify_obj_def set_head_def)



lemma same_files_sync_request: "preserves same_files (sync_request w a b r isOpen pr br h subj)"
  unfolding sync_request_def
  by (intro preserves_intros same_files_prims preorder_same_files)

text \<open>One iteration of the loop, and the whole loop, when they return without error.\<close>

lemma copy_step_Inr:
  assumes "copy_step w v i c acc s = (Inr subj, s')"
  shows "trace s' = trace s @ ladder_events w v i [c] \<and>
         subj = acc @ promoted_names w i [c] \<and>
         files s' = ladder_files w v [c] (files s) \<and>
         (if Worktree_Status w i = Inr False
          then \<exists>x. Worktree_Commit w i = Inr x \<and>
                   heads s' = (heads s)(targetEnvironmentRepo v := Some x)
          else heads s' = heads s)"
proof -
  from assms obtain src tgt s1 where
    js: "SecureJoin w (sourceEnvironmentFullPath v) (op_Source c) = Inr src"
    and jt: "SecureJoin w (targetEnvironmentFullPath v) (op_Target c) = Inr tgt"
    and cp: "CopyOperation src tgt (s\<lparr>trace := trace s @ [CopyOp src tgt]\<rparr>) = (Inr (), s1)"
    and rest: "andThen (emit WtStatus) (\<lambda>_.
     andThen (lift (Worktree_Status w i)) (\<lambda>isClean.
       if isClean then ret acc
       else
         andThen (emit WtAddGlob) (\<lambda>_.
         andThen (check (fault w (AddGlob_at i))) (\<lambda>_.
         andThen (emit (WtCommit (commit_message (op_Name c) (sourceEnvName v)
                                    (targetEnvName v) (sourceEnvironmentLatestCommit v)))) (\<lambda>_.
         andThen (lift (Worktree_Commit w i)) (\<lambda>h.
         andThen (set_head (targetEnvironmentRepo v) h) (\<lambda>_.
         andThen (emit (GitPush (pushURL v))) (\<lambda>_.
         andThen (check (fault w (Push_at i))) (\<lambda>_.
         andThen (modify_obj (\<lambda>p. PromotionReady p SucceededReason
                                      ''Pushed new commits to PR branch'')) (\<lambda>_.
         ret (acc @ [op_Name c]))))))))))) s1 = (Inr subj, s')"
    unfolding copy_step_def
    by (auto simp: andThen_def split: sum.splits prod.splits)
  have f: "heads s1 = heads s" "trace s1 = trace s @ [CopyOp src tgt]"
    using preservesD[OF only_files_CopyOperation cp] by (simp_all add: only_files_def)
  have g: "files s1 = copied src tgt (files s)"
    using CopyOperation_files[of src tgt "s\<lparr>trace := trace s @ [CopyOp src tgt]\<rparr>"] cp by simp
  from rest f g show ?thesis
    by (auto simp: andThen_def check_def set_head_def modify_obj_def joined_Inr[OF js] joined_Inr[OF jt]
        split: option.splits sum.splits prod.splits if_splits)
qed

lemma copy_loop_Inr:
  "copy_loop w v i ops acc s = (Inr subj, s') \<Longrightarrow>
   trace s' = trace s @ ladder_events w v i ops \<and> subj = acc @ promoted_names w i ops \<and>
   files s' = ladder_files w v ops (files s)"
proof (induction ops arbitrary: i acc s)
  case Nil
  then show ?case by simp
next
  case (Cons c ops)
  from Cons.prems obtain subj1 s1 where 1: "copy_step w v i c acc s = (Inr subj1, s1)"
    and 2: "copy_loop w v (Suc i) ops subj1 s1 = (Inr subj, s')"
    unfolding copy_loop.simps by (erule andThen_InrE)
  from copy_step_Inr[OF 1] Cons.IH[OF 2] show ?case by simp
qed

lemma copy_loop_head:
  assumes "copy_loop w v i ops acc s = (Inr subj, s')"
    and "heads s (targetEnvironmentRepo v) = Some h"
    and "\<forall>i x. Worktree_Commit w i = Inr x \<longrightarrow> x \<noteq> h0"
  shows "\<exists>h'. heads s' (targetEnvironmentRepo v) = Some h' \<and>
              (if promoted_names w i ops = [] then h' = h else h' \<noteq> h0)"
  using assms(1,2)
proof (induction ops arbitrary: i acc s h)
  case Nil
  then show ?case by simp
next
  case (Cons c ops)
  from Cons.prems(1) obtain subj1 s1 where 1: "copy_step w v i c acc s = (Inr subj1, s1)"
    and 2: "copy_loop w v (Suc i) ops subj1 s1 = (Inr subj, s')"
    unfolding copy_loop.simps by (erule andThen_InrE)
  show ?case
  proof (cases "Worktree_Status w i = Inr False")
    case True
    with copy_step_Inr[OF 1] obtain x where x: "Worktree_Commit w i = Inr x"
      "heads s1 (targetEnvironmentRepo v) = Some x" by auto
    with assms(3) have "x \<noteq> h0" by blast
    with Cons.IH[OF 2 x(2)] True show ?thesis by (auto split: if_splits)
  next
    case False
    with copy_step_Inr[OF 1] Cons.prems(2) have "heads s1 (targetEnvironmentRepo v) = Some h" by simp
    from Cons.IH[OF 2 this] False show ?thesis by simp
  qed
qed


lemma ladder_events_no_pr: "list_all (\<lambda>ev. \<not> pr_write ev) (ladder_events w v i ops)"
  by (induction ops arbitrary: i) auto

lemma ladder_events_commit:
  "WtCommit m \<in> set (ladder_events w v i ops) \<Longrightarrow> promoted_names w i ops \<noteq> []"
  by (induction ops arbitrary: i) (auto split: if_splits)

lemma addsD:
  assumes "preserves (adds P) m" "m s = (r, s')"
  obtains es where "trace s' = trace s @ es" "list_all P es"
  using preservesD[OF assms] by (auto simp: adds_def)

lemma filter_none: "list_all (\<lambda>ev. \<not> P ev) es \<Longrightarrow> filter P es = []"
  by (induction es) auto


lemma promote_InrE:
  assumes "promote w a b sd td s = (Inr d, s')"
  obtains sha auth url prs pr br h subj s1 s2 s3 where
    "resolve_request w b sd td s = (Inr (sha, auth, url, prs), s1)"
    "acquire_branch w td url (isPROpen_of (obj s1) prs) s1 = (Inr (pr, br), s2)"
    "heads s2 td = Some h"
    "copy_loop w \<lparr>sourceEnvName = env_Name a, targetEnvName = env_Name b,
                   sourceEnvironmentFullPath = filepath_Join sd (Path (env_Spec a)),
                   targetEnvironmentFullPath = filepath_Join td (Path (env_Spec b)),
                   targetEnvironmentRepo = td, sourceEnvironmentLatestCommit = sha,
                   pushURL = url\<rparr> 0 (Copy (Spec (obj s1))) [] s2 = (Inr subj, s3)"
    "sync_request w a b td (isPROpen_of (obj s1) prs) pr br h subj s3 = (Inr d, s')"
proof -
  from assms obtain r1 s1 where 1: "resolve_request w b sd td s = (Inr r1, s1)"
    and k1: "(case r1 of (sha, gitAuthOpts, cloneURL, prs) \<Rightarrow>
         andThen get_obj (\<lambda>p.
         andThen (acquire_branch w td cloneURL (isPROpen_of p prs))
           (\<lambda>(pr, branch).
         andThen (repo_Head w Head_before td) (\<lambda>beforeHead.
         andThen (copy_loop w
                    \<lparr>sourceEnvName = env_Name a,
                     targetEnvName = env_Name b,
                     sourceEnvironmentFullPath = filepath_Join sd (Path (env_Spec a)),
                     targetEnvironmentFullPath = filepath_Join td (Path (env_Spec b)),
                     targetEnvironmentRepo = td,
                     sourceEnvironmentLatestCommit = sha,
                     pushURL = cloneURL\<rparr>
                    0 (Copy (Spec p)) []) (\<lambda>promotedSubjects.
         sync_request w a b td
           (isPROpen_of p prs) pr branch beforeHead promotedSubjects))))) s1 = (Inr d, s')"
    unfolding promote_def by (erule andThen_InrE)
  obtain sha auth url prs where r1: "r1 = (sha, auth, url, prs)" by (cases r1)
  define v where "v = \<lparr>sourceEnvName = env_Name a,
                     targetEnvName = env_Name b,
                     sourceEnvironmentFullPath = filepath_Join sd (Path (env_Spec a)),
                     targetEnvironmentFullPath = filepath_Join td (Path (env_Spec b)),
                     targetEnvironmentRepo = td,
                     sourceEnvironmentLatestCommit = sha,
                     pushURL = url\<rparr>"
  from k1 obtain r2 s2 where 2: "acquire_branch w td url (isPROpen_of (obj s1) prs) s1 = (Inr r2, s2)"
    and k2: "(case r2 of (pr, branch) \<Rightarrow>
         andThen (repo_Head w Head_before td) (\<lambda>beforeHead.
         andThen (copy_loop w v 0 (Copy (Spec (obj s1))) []) (\<lambda>promotedSubjects.
         sync_request w a b td
           (isPROpen_of (obj s1) prs) pr branch beforeHead promotedSubjects))) s2 = (Inr d, s')"
    unfolding r1 v_def
    by (auto simp: get_obj_def elim!: andThen_InrE)
  obtain pr br where r2: "r2 = (pr, br)" by (cases r2)
  from k2 obtain h where 3: "heads s2 td = Some h"
    and k3: "andThen (copy_loop w v 0 (Copy (Spec (obj s1))) []) (\<lambda>promotedSubjects.
         sync_request w a b td
           (isPROpen_of (obj s1) prs) pr br h promotedSubjects) s2 = (Inr d, s')"
    unfolding r2
    by (auto simp: repo_Head_def split: option.splits elim!: andThen_InrE)
  from k3 obtain subj s3 where 4: "copy_loop w v 0 (Copy (Spec (obj s1))) [] s2 = (Inr subj, s3)"
    and k4: "sync_request w a b td (isPROpen_of (obj s1) prs) pr br h subj s3 = (Inr d, s')"
    by (erule andThen_InrE)
  show ?thesis
    using that[OF 1[unfolded r1] 2[unfolded r2] 3 4[unfolded v_def] k4] .
qed

lemma still_resolve_request: "preserves still (resolve_request w e a b)"
  unfolding resolve_request_def
  by (intro preserves_intros still_emit preorder_still still_NewGitProviderOrgRepository) simp

lemma new_events_append: "trace s' = trace s @ es \<Longrightarrow> new_events s s' = es"
  by (simp add: new_events_def)

text \<open>
  The branch the ladder works on: the branch of the open request, fetched and checked
  out, or a fresh branch at the head of the clone.
\<close>

lemma acquire_branch_Inr:
  assumes "acquire_branch w td url isOpen s = (Inr (pr, br), s')"
  shows "obj s' = obj s \<and>
         files s' = (if isOpen then checkout_files w (request_branch w (obj s)) (files s)
                     else files s) \<and>
         heads s' td = (if isOpen then Some (branch_head w (request_branch w (obj s)))
                        else heads s td) \<and>
         (if isOpen
          then \<exists>openPR. pr = Some openPR \<and> br = SourceBranch openPR \<and>
                 PullRequests_Get w (LastPullRequestNumber (Status (obj s))) = Inr openPR
          else pr = None \<and> br = ''promotion/'' @ Name (obj s) @ ''-'' @ now_formatted w)"
  using assms
  by (auto simp: acquire_branch_def get_obj_def andThen_def check_def checked_out_def
      request_branch_def split: option.splits sum.splits if_splits)


section \<open>The change ladder\<close>











lemma example_list:
  "PullRequests_List example_world
     = Inr [\<lparr>Number = 9, WebURL = ''https://github.com/acme/overlay-prod/pull/9'',
             SourceBranch = ''promotion/other-2023-01-01-00-00-00''\<rparr>]"
  by (simp add: example_world_sel)

lemma example_closed:
  "\<not> isPROpen_of (obj example_cloned)
       [\<lparr>Number = 9, WebURL = ''https://github.com/acme/overlay-prod/pull/9'',
         SourceBranch = ''promotion/other-2023-01-01-00-00-00''\<rparr>]"
  by (simp add: isPROpen_of_def example_cloned_def example_promotion_def)



section \<open>Resuming or recreating the pull request\<close>

text \<open>
  The request counts as open exactly when the recorded number is not zero and is the
  number of one of the requests listed.
\<close>

lemma pr_listed_iff: "pr_listed n prs \<longleftrightarrow> n \<in> Number ` set prs"
  by (induction prs) auto

lemma isPROpen_of_iff:
  "isPROpen_of p prs \<longleftrightarrow>
     LastPullRequestNumber (Status p) \<noteq> 0 \<and> LastPullRequestNumber (Status p) \<in> Number ` set prs"
  by (simp add: isPROpen_of_def pr_listed_iff)

lemma sync_request_create:
  assumes "sync_request w a b td False pr br h subj s = (Inr d, s')"
    and "heads s td = Some h'" and "h' \<noteq> h"
  shows "\<exists>r newPR. Reference (Source (env_Spec b)) = Some r \<and>
           PullRequests_Create w (pr_title subj (env_Name a) (env_Name b)) br (Branch r) [] = Inr newPR \<and>
           trace s' = trace s @ [PRCreate (pr_title subj (env_Name a) (env_Name b)) br (Branch r) []] \<and>
           LastPullRequestNumber (Status (obj s')) = Number newPR \<and>
           LastPullRequestURL (Status (obj s')) = WebURL newPR"
  using assms
  by (auto simp: sync_request_def repo_Head_def andThen_def modify_obj_def
      split: option.splits sum.splits)

text \<open>
  The request recorded in the status is touched by nothing but the creation of a request.
\<close>

lemma same_request_prims:
  "preserves same_request (emit ev)"
  "preserves same_request (set_head repo h)"
  "preserves same_request (checked_out w repo b)"
  "preserves same_request (modify_obj (\<lambda>p. PromotionReady p r m))"
  by (simp_all add: preserves_def same_request_def set_head_def checked_out_def modify_obj_def
      PromotionReady_def)

lemma same_request_quiet: "preserves quiet m \<Longrightarrow> preserves same_request m"
  by (simp add: preserves_def quiet_def same_request_def)

lemma same_request_only_files: "preserves only_files m \<Longrightarrow> preserves same_request m"
  by (simp add: preserves_def only_files_def same_request_def)

lemma same_request_copy_step: "preserves same_request (copy_step w v i c acc)"
  unfolding copy_step_def
  by (intro preserves_intros same_request_prims preorder_same_request
      same_request_only_files[OF only_files_CopyOperation])

lemma same_request_copy_loop: "preserves same_request (copy_loop w v i ops acc)"
proof (induction ops arbitrary: i acc)
  case Nil
  show ?case by (simp add: preserves_def same_request_def)
next
  case (Cons c ops)
  show ?case
    unfolding copy_loop.simps
    by (intro preserves_andThen preorder_same_request same_request_copy_step Cons.IH)
qed

lemma sync_request_edit:
  assumes "sync_request w a b td True (Some openPR) br h subj s = (Inr d, s')"
    and "heads s td = Some h'" and "h' \<noteq> h"
  shows "trace s' = trace s @ [PREdit (Number openPR) (pr_title subj (env_Name a) (env_Name b))] \<and>
         LastPullRequestNumber (Status (obj s')) = LastPullRequestNumber (Status (obj s)) \<and>
         LastPullRequestURL (Status (obj s')) = LastPullRequestURL (Status (obj s))"
  using assms
  by (auto simp: sync_request_def repo_Head_def andThen_def modify_obj_def PromotionReady_def
      split: option.splits sum.splits)

text \<open>
  A request that counts as open is resumed: a run that completes with at least one commit
  makes exactly one pull-request write, the edit of that request's title, and leaves the
  recorded number and URL as they were.
\<close>

lemma promote_edits:
  assumes run: "promote w src tgt sd td s = (Inr d, s')"
    and list: "PullRequests_List w = Inr prs"
    and isOpen: "isPROpen_of (obj s) prs"
    and fresh: "\<forall>i x b. Worktree_Commit w i = Inr x \<longrightarrow> x \<noteq> branch_head w b"
    and commits: "\<exists>m. WtCommit m \<in> set (new_events s s')"
  shows "\<exists>openPR.
            PullRequests_Get w (LastPullRequestNumber (Status (obj s))) = Inr openPR \<and>
            filter pr_write (new_events s s') =
              [PREdit (Number openPR)
                 (pr_title (promoted_names w 0 (Copy (Spec (obj s)))) (env_Name src) (env_Name tgt))] \<and>
            LastPullRequestNumber (Status (obj s')) = LastPullRequestNumber (Status (obj s)) \<and>
            LastPullRequestURL (Status (obj s')) = LastPullRequestURL (Status (obj s))"
proof -
  define P0 where "P0 = (\<lambda>ev. \<not> loop_event ev \<and> \<not> pr_write ev)"
  from run obtain sha auth url prs1 pr br hb subj s1 s2 s3 where
    1: "resolve_request w tgt sd td s = (Inr (sha, auth, url, prs1), s1)"
    and 2: "acquire_branch w td url (isPROpen_of (obj s1) prs1) s1 = (Inr (pr, br), s2)"
    and 3: "heads s2 td = Some hb"
    and 4: "copy_loop w \<lparr>sourceEnvName = env_Name src, targetEnvName = env_Name tgt,
                   sourceEnvironmentFullPath = filepath_Join sd (Path (env_Spec src)),
                   targetEnvironmentFullPath = filepath_Join td (Path (env_Spec tgt)),
                   targetEnvironmentRepo = td, sourceEnvironmentLatestCommit = sha,
                   pushURL = url\<rparr> 0 (Copy (Spec (obj s1))) [] s2 = (Inr subj, s3)"
    and 5: "sync_request w src tgt td (isPROpen_of (obj s1) prs1) pr br hb subj s3 = (Inr d, s')"
    by (rule promote_InrE)
  have prs1: "prs1 = prs" using resolve_request_Inr[OF 1] list by simp
  have o1: "obj s1 = obj s" using preservesD[OF quiet_resolve_request 1] by (simp add: quiet_def)
  have opn: "isPROpen_of (obj s1) prs1 = True" using isOpen o1 prs1 by simp
  from acquire_branch_Inr[OF 2[unfolded opn]] obtain openPR where
    pr: "pr = Some openPR"
    and get: "PullRequests_Get w (LastPullRequestNumber (Status (obj s))) = Inr openPR"
    and o2: "obj s2 = obj s"
    and hb: "hb = branch_head w (request_branch w (obj s1))"
    using 3 o1 by auto
  obtain e1 where e1: "trace s1 = trace s @ e1" "list_all P0 e1"
    by (rule addsD[OF adds_resolve_request 1, of P0]) (simp_all add: P0_def)
  obtain e2 where e2: "trace s2 = trace s1 @ e2" "list_all P0 e2"
    by (rule addsD[OF adds_acquire_branch 2, of P0]) (simp_all add: P0_def)
  let ?v = "\<lparr>sourceEnvName = env_Name src, targetEnvName = env_Name tgt,
                   sourceEnvironmentFullPath = filepath_Join sd (Path (env_Spec src)),
                   targetEnvironmentFullPath = filepath_Join td (Path (env_Spec tgt)),
                   targetEnvironmentRepo = td, sourceEnvironmentLatestCommit = sha,
                   pushURL = url\<rparr>"
  let ?L = "ladder_events w ?v 0 (Copy (Spec (obj s)))"
  note l = copy_loop_Inr[OF 4, unfolded o1]
  have subj: "subj = promoted_names w 0 (Copy (Spec (obj s)))" using l by simp
  obtain e4 where e4: "trace s' = trace s3 @ e4" "list_all (\<lambda>ev. \<not> loop_event ev) e4"
    by (rule addsD[OF adds_sync_request 5, of "\<lambda>ev. \<not> loop_event ev"]) simp_all
  have new: "new_events s s' = e1 @ e2 @ ?L @ e4"
    using e1 e2 l e4 by (intro new_events_append) simp
  from commits obtain m where "WtCommit m \<in> set (e1 @ e2 @ ?L @ e4)" unfolding new by blast
  then have "WtCommit m \<in> set ?L"
    using e1(2) e2(2) e4(2) by (auto simp: P0_def list_all_iff)
  then have ne: "promoted_names w 0 (Copy (Spec (obj s))) \<noteq> []"
    by (rule ladder_events_commit)
  have fr: "\<forall>i x. Worktree_Commit w i = Inr x \<longrightarrow> x \<noteq> hb" using fresh hb by simp
  have "heads s2 (targetEnvironmentRepo ?v) = Some hb" using 3 by simp
  from copy_loop_head[OF 4 this fr] ne o1
  obtain h' where h': "heads s3 td = Some h'" "h' \<noteq> hb" by auto
  have o3: "same_request s2 s3" using preservesD[OF same_request_copy_loop 4] .
  note c = sync_request_edit[OF 5[unfolded opn pr] h']
  have e4': "e4 = [PREdit (Number openPR) (pr_title subj (env_Name src) (env_Name tgt))]"
    using c e4(1) by simp
  have "filter pr_write (e1 @ e2 @ ?L) = []"
    using e1(2) e2(2) ladder_events_no_pr[of w ?v 0 "Copy (Spec (obj s))"]
    by (auto simp: P0_def list_all_iff filter_empty_conv)
  then have "filter pr_write (new_events s s') =
      [PREdit (Number openPR) (pr_title subj (env_Name src) (env_Name tgt))]"
    unfolding new e4' by simp
  with get c o3 o2 show ?thesis
    unfolding subj by (simp add: same_request_def)
qed

text \<open>
  With a branch configured for the target Environment, a run that completes with at least
  one commit, for a request that does not count as open, makes exactly one pull-request
  write: the creation of a new request, whose title names the committed operations, from
  the fresh promotion branch against the configured branch; and the status carries the
  number and URL of the request created.  In particular such a run cannot complete
  without a branch configured.
\<close>

lemma promote_creates:
  assumes run: "promote w src tgt sd td s = (Inr d, s')"
    and list: "PullRequests_List w = Inr prs"
    and closed: "\<not> isPROpen_of (obj s) prs"
    and head: "heads s td = Some h0"
    and fresh: "\<forall>i x. Worktree_Commit w i = Inr x \<longrightarrow> x \<noteq> h0"
    and commits: "\<exists>m. WtCommit m \<in> set (new_events s s')"
  shows "\<exists>r newPR.
            Reference (Source (env_Spec tgt)) = Some r \<and>
            PullRequests_Create w
              (pr_title (promoted_names w 0 (Copy (Spec (obj s)))) (env_Name src) (env_Name tgt))
              (''promotion/'' @ Name (obj s) @ ''-'' @ now_formatted w) (Branch r) [] = Inr newPR \<and>
            filter pr_write (new_events s s') =
              [PRCreate
                 (pr_title (promoted_names w 0 (Copy (Spec (obj s)))) (env_Name src) (env_Name tgt))
                 (''promotion/'' @ Name (obj s) @ ''-'' @ now_formatted w) (Branch r) []] \<and>
            LastPullRequestNumber (Status (obj s')) = Number newPR \<and>
            LastPullRequestURL (Status (obj s')) = WebURL newPR"
proof -
  define P0 where "P0 = (\<lambda>ev. \<not> loop_event ev \<and> \<not> pr_write ev)"
  from run obtain sha auth url prs1 pr br hb subj s1 s2 s3 where
    1: "resolve_request w tgt sd td s = (Inr (sha, auth, url, prs1), s1)"
    and 2: "acquire_branch w td url (isPROpen_of (obj s1) prs1) s1 = (Inr (pr, br), s2)"
    and 3: "heads s2 td = Some hb"
    and 4: "copy_loop w \<lparr>sourceEnvName = env_Name src, targetEnvName = env_Name tgt,
                   sourceEnvironmentFullPath = filepath_Join sd (Path (env_Spec src)),
                   targetEnvironmentFullPath = filepath_Join td (Path (env_Spec tgt)),
                   targetEnvironmentRepo = td, sourceEnvironmentLatestCommit = sha,
                   pushURL = url\<rparr> 0 (Copy (Spec (obj s1))) [] s2 = (Inr subj, s3)"
    and 5: "sync_request w src tgt td (isPROpen_of (obj s1) prs1) pr br hb subj s3 = (Inr d, s')"
    by (rule promote_InrE)
  have prs1: "prs1 = prs" using resolve_request_Inr[OF 1] list by simp
  have st1: "still s s1" using preservesD[OF still_resolve_request 1] .
  then have o1: "obj s1 = obj s" and h1: "heads s1 = heads s" by (simp_all add: still_def)
  have notopen: "isPROpen_of (obj s1) prs1 = False" using closed o1 prs1 by simp
  note a = acquire_branch_Inr[OF 2[unfolded notopen]]
  have hb: "hb = h0" using 3 a h1 head by simp
  obtain e1 where e1: "trace s1 = trace s @ e1" "list_all P0 e1"
    by (rule addsD[OF adds_resolve_request 1, of P0]) (simp_all add: P0_def)
  obtain e2 where e2: "trace s2 = trace s1 @ e2" "list_all P0 e2"
    by (rule addsD[OF adds_acquire_branch 2, of P0]) (simp_all add: P0_def)
  let ?v = "\<lparr>sourceEnvName = env_Name src, targetEnvName = env_Name tgt,
                   sourceEnvironmentFullPath = filepath_Join sd (Path (env_Spec src)),
                   targetEnvironmentFullPath = filepath_Join td (Path (env_Spec tgt)),
                   targetEnvironmentRepo = td, sourceEnvironmentLatestCommit = sha,
                   pushURL = url\<rparr>"
  let ?L = "ladder_events w ?v 0 (Copy (Spec (obj s)))"
  note l = copy_loop_Inr[OF 4, unfolded o1]
  have subj: "subj = promoted_names w 0 (Copy (Spec (obj s)))" using l by simp
  obtain e4 where e4: "trace s' = trace s3 @ e4" "list_all (\<lambda>ev. \<not> loop_event ev) e4"
    by (rule addsD[OF adds_sync_request 5, of "\<lambda>ev. \<not> loop_event ev"]) simp_all
  have new: "new_events s s' = e1 @ e2 @ ?L @ e4"
    using e1 e2 l e4 by (intro new_events_append) simp
  from commits obtain m where "WtCommit m \<in> set (e1 @ e2 @ ?L @ e4)" unfolding new by blast
  then have "WtCommit m \<in> set ?L"
    using e1(2) e2(2) e4(2) by (auto simp: P0_def list_all_iff)
  then have ne: "promoted_names w 0 (Copy (Spec (obj s))) \<noteq> []"
    by (rule ladder_events_commit)
  have "heads s2 (targetEnvironmentRepo ?v) = Some h0" using 3 hb by simp
  from copy_loop_head[OF 4 this fresh] ne o1
  obtain h' where h': "heads s3 td = Some h'" "h' \<noteq> h0" by auto
  from sync_request_create[OF 5[unfolded notopen hb] h']
  obtain r newPR where c: "Reference (Source (env_Spec tgt)) = Some r"
    "PullRequests_Create w (pr_title subj (env_Name src) (env_Name tgt)) br (Branch r) [] = Inr newPR"
    "trace s' = trace s3 @ [PRCreate (pr_title subj (env_Name src) (env_Name tgt)) br (Branch r) []]"
    "LastPullRequestNumber (Status (obj s')) = Number newPR"
    "LastPullRequestURL (Status (obj s')) = WebURL newPR"
    by blast
  have e4': "e4 = [PRCreate (pr_title subj (env_Name src) (env_Name tgt)) br (Branch r) []]"
    using c(3) e4(1) by simp
  have br: "br = ''promotion/'' @ Name (obj s) @ ''-'' @ now_formatted w" using a o1 by simp
  have "filter pr_write (e1 @ e2 @ ?L) = []"
    using e1(2) e2(2) ladder_events_no_pr[of w ?v 0 "Copy (Spec (obj s))"]
    by (auto simp: P0_def list_all_iff filter_empty_conv)
  then have "filter pr_write (new_events s s') =
      [PRCreate (pr_title subj (env_Name src) (env_Name tgt)) br (Branch r) []]"
    unfolding new e4' by simp
  with c show ?thesis
    unfolding subj br by blast
qed

text \<open>
  The call that creates the request reads \<open>Spec.Source.Reference.Branch\<close> of the target
  Environment without the nil check \<open>GetBranch\<close> has.  What follows is for a target
  Environment with no \<open>ref\<close> and a request that does not count as open.
\<close>

lemma sync_request_without_ref:
  assumes "Reference (Source (env_Spec b)) = None"
  shows "preserves same_request (sync_request w a b td False pr br h subj)"
    and "preserves (adds (\<lambda>ev. \<not> pr_write ev)) (sync_request w a b td False pr br h subj)"
  using assms
  by (simp_all add: preserves_def sync_request_def repo_Head_def andThen_def modify_obj_def
      same_request_def adds_def PromotionReady_def split: option.split)

lemma loop_event_no_pr: "loop_event ev \<Longrightarrow> \<not> pr_write ev"
  by (cases ev) auto

text \<open>A relation that every phase preserves is preserved by the whole, on every path.\<close>

lemma promote_closed_preserves:
  assumes R: "preorder R"
    and r1: "preserves R (resolve_request w tgt sd td)"
    and r2: "\<And>url. preserves R (acquire_branch w td url False)"
    and r3: "\<And>v ops. preserves R (copy_loop w v 0 ops [])"
    and r4: "\<And>pr br h subj. preserves R (sync_request w src tgt td False pr br h subj)"
    and list: "PullRequests_List w = Inr prs"
    and closed: "\<not> isPROpen_of (obj s) prs"
  shows "R s (snd (promote w src tgt sd td s))"
proof -
  obtain x s1 where 1: "resolve_request w tgt sd td s = (x, s1)"
    by (cases "resolve_request w tgt sd td s")
  have a: "R s s1" using preservesD[OF r1 1] .
  show ?thesis
  proof (cases x)
    case (Inl e)
    then show ?thesis using 1 a by (simp add: promote_def)
  next
    case (Inr y)
    obtain sha auth url prs1 where y: "y = (sha, auth, url, prs1)" by (cases y)
    have prs1: "prs1 = prs" using resolve_request_Inr[OF 1[unfolded Inr y]] list by simp
    have o1: "obj s1 = obj s" using preservesD[OF quiet_resolve_request 1] by (simp add: quiet_def)
    define M where "M =
      andThen (acquire_branch w td url False) (\<lambda>(pr, branch).
      andThen (repo_Head w Head_before td) (\<lambda>beforeHead.
      andThen (copy_loop w
                 \<lparr>sourceEnvName = env_Name src, targetEnvName = env_Name tgt,
                  sourceEnvironmentFullPath = filepath_Join sd (Path (env_Spec src)),
                  targetEnvironmentFullPath = filepath_Join td (Path (env_Spec tgt)),
                  targetEnvironmentRepo = td, sourceEnvironmentLatestCommit = sha,
                  pushURL = url\<rparr> 0 (Copy (Spec (obj s))) []) (\<lambda>promotedSubjects.
      sync_request w src tgt td False pr branch beforeHead promotedSubjects)))"
    have c1: "isPROpen_of (obj s) prs1 = False" using closed prs1 by simp
    have p: "promote w src tgt sd td s = M s1"
      using 1 by (simp add: promote_def Inr y get_obj_def M_def c1 o1)
    have "preserves R M"
      unfolding M_def
      by (intro preserves_andThen preserves_case_prod preserves_repo_Head R r2 r3 r4)
    then have "R s1 (snd (M s1))" by (simp add: preserves_def)
    with a R show ?thesis unfolding p preorder_def by blast
  qed
qed

text \<open>
  Claim C3, where the code departs from it.  When the request does not count as open and
  the run has produced commits, a new pull request is to be created against the target
  Environment's configured branch, and the status is to carry its number and URL.  The
  branch of an Environment is optional: without it \<open>GetBranch\<close> answers \<open>master\<close>, and the
  repository is cloned at that branch.  For a target Environment with no \<open>ref\<close> and a
  request that does not count as open, whatever the run's result \<open>r\<close>:
  \<^item> at the call that is to create the request, the branch head having moved, the attempt
    ends in a nil dereference, with nothing created and the status as it was;
  \<^item> on no path of the part of the reconcile that follows the two clones is a pull
    request created or edited, and the recorded number and URL stay what they were;
  \<^item> a run that has made a commit (with a hash that is new) ends in an error.
\<close>

theorem promote_without_ref:
  assumes run: "promote w src tgt sd td s = (r, s')"
    and ref: "Reference (Source (env_Spec tgt)) = None"
    and list: "PullRequests_List w = Inr prs"
    and closed: "\<not> isPROpen_of (obj s) prs"
    and head: "heads s td = Some h0"
    and fresh: "\<forall>i x. Worktree_Commit w i = Inr x \<longrightarrow> x \<noteq> h0"
  shows "(\<forall>(t::state) h' pr br subj.
            heads t td = Some h' \<and> h' \<noteq> h0 \<and> fault w Head_after = None \<longrightarrow>
            sync_request w src tgt td False pr br h0 subj t = (Inl NilDereference, t)) \<and>
         filter pr_write (new_events s s') = [] \<and>
         LastPullRequestNumber (Status (obj s')) = LastPullRequestNumber (Status (obj s)) \<and>
         LastPullRequestURL (Status (obj s')) = LastPullRequestURL (Status (obj s)) \<and>
         ((\<exists>m. WtCommit m \<in> set (new_events s s')) \<longrightarrow> (\<exists>e. r = Inl e))"
proof (intro conjI allI impI)
  fix t :: state and h' pr br subj
  assume "heads t td = Some h' \<and> h' \<noteq> h0 \<and> fault w Head_after = None"
  then show "sync_request w src tgt td False pr br h0 subj t = (Inl NilDereference, t)"
    using ref by (auto simp: sync_request_def repo_Head_def andThen_def)
next
  have "adds (\<lambda>ev. \<not> pr_write ev) s (snd (promote w src tgt sd td s))"
    by (rule promote_closed_preserves[OF preorder_adds adds_resolve_request adds_acquire_branch
          adds_copy_loop sync_request_without_ref(2)[OF ref] list closed])
       (simp_all add: loop_event_no_pr)
  then obtain es where "trace s' = trace s @ es" "list_all (\<lambda>ev. \<not> pr_write ev) es"
    by (auto simp: adds_def run)
  then show "filter pr_write (new_events s s') = []"
    by (simp add: new_events_def filter_none)
next
  have "same_request s (snd (promote w src tgt sd td s))"
    by (rule promote_closed_preserves[OF preorder_same_request
          same_request_quiet[OF quiet_resolve_request] same_request_quiet[OF quiet_acquire_branch]
          same_request_copy_loop sync_request_without_ref(1)[OF ref] list closed])
  then show "LastPullRequestNumber (Status (obj s')) = LastPullRequestNumber (Status (obj s))"
    "LastPullRequestURL (Status (obj s')) = LastPullRequestURL (Status (obj s))"
    by (simp_all add: same_request_def run)
next
  assume commits: "\<exists>m. WtCommit m \<in> set (new_events s s')"
  show "\<exists>e. r = Inl e"
  proof (cases r)
    case (Inl e)
    then show ?thesis by blast
  next
    case (Inr d)
    from promote_creates[OF run[unfolded Inr] list closed head fresh commits] ref
    show ?thesis by auto
  qed
qed

lemma eval_promote_without_ref:
  "(case promote example_world example_dev noref_prod [''tmp'', ''source''] [''tmp'', ''target'']
           example_cloned of
      (r, s') \<Rightarrow> (r, new_events example_cloned s', LastPullRequestNumber (Status (obj s')),
                   LastPullRequestURL (Status (obj s'))))
   = (Inl NilDereference,
      [ProviderRepoGet ''github.com/acme/overlay-prod'', PRList,
       GitCheckout ''refs/heads/promotion/from-dev-to-prod-2023-05-17-09-30-00'' True False,
       CopyOp [''tmp'', ''source'', ''envs'', ''dev'', ''settings'']
              [''tmp'', ''target'', ''envs'', ''prod'', ''settings''],
       WtStatus,
       CopyOp [''tmp'', ''source'', ''envs'', ''dev'', ''app-version'', ''kustomization.yaml'']
              [''tmp'', ''target'', ''envs'', ''prod'', ''app-version''],
       WtStatus, WtAddGlob,
       WtCommit (commit_message ''Kustomization File'' ''dev'' ''prod'' ''4f2a9c1''),
       GitPush ''git@github.com:acme/overlay-prod'',
       CopyOp [''tmp'', ''source'', ''envs'', ''dev'', ''app-version'']
              [''tmp'', ''target'', ''envs'', ''prod'', ''app-version''],
       WtStatus],
      5, ''https://github.com/acme/overlay-prod/pull/5'')"
  by (simp add: run_defs example_defs noref_prod_def example_cloned_def new_events_def)

text \<open>
  The same through \<open>Reconcile\<close>: the commit is made and pushed, the attempt ends in the nil
  dereference, and the status written back still carries the request that is no longer
  open.
\<close>

lemma Reconcile_without_ref:
  "(case Reconcile noref_world empty_fs of
      (r, s) \<Rightarrow> (r, filter change_event (trace s), LastPullRequestNumber (Status (obj s)),
                  LastPullRequestURL (Status (obj s))))
     = ((0, Some NilDereference),
        [WtCommit (commit_message ''Kustomization File'' ''dev'' ''prod'' ''4f2a9c1''),
         GitPush ''git@github.com:acme/overlay-prod''],
        5, ''https://github.com/acme/overlay-prod/pull/5'')"
  by (simp add: run_defs example_defs noref_world_def noref_prod_def)

theorem promote_without_ref_witness:
  "GetBranch noref_prod = ''master'' \<and>
   fst (promote example_world example_dev noref_prod [''tmp'', ''source''] [''tmp'', ''target'']
          example_cloned) = Inl NilDereference \<and>
   filter change_event
     (new_events example_cloned
        (snd (promote example_world example_dev noref_prod [''tmp'', ''source'']
                [''tmp'', ''target''] example_cloned)))
     = [WtCommit (commit_message ''Kustomization File'' ''dev'' ''prod'' ''4f2a9c1''),
        GitPush ''git@github.com:acme/overlay-prod''] \<and>
   filter pr_write
     (new_events example_cloned
        (snd (promote example_world example_dev noref_prod [''tmp'', ''source'']
                [''tmp'', ''target''] example_cloned))) = [] \<and>
   LastPullRequestNumber
     (Status (obj (snd (promote example_world example_dev noref_prod [''tmp'', ''source'']
                         [''tmp'', ''target''] example_cloned)))) = 5 \<and>
   LastPullRequestURL
     (Status (obj (snd (promote example_world example_dev noref_prod [''tmp'', ''source'']
                         [''tmp'', ''target''] example_cloned))))
     = ''https://github.com/acme/overlay-prod/pull/5'' \<and>
   sync_request example_world example_dev noref_prod [''tmp'', ''target''] False None
       ''promotion/from-dev-to-prod-2023-05-17-09-30-00''
       ''0b7d3e6a9c2f4e1d8a5b6c7d8e9f0a1b2c3d4e5f'' [''Kustomization File'']
       (example_cloned\<lparr>heads := (heads example_cloned)
          ([''tmp'', ''target''] := Some ''e5d4c3b2a1908f7e6d5c4b3a29180f7e6d5c4b3a'')\<rparr>)
     = (Inl NilDereference,
        example_cloned\<lparr>heads := (heads example_cloned)
          ([''tmp'', ''target''] := Some ''e5d4c3b2a1908f7e6d5c4b3a29180f7e6d5c4b3a'')\<rparr>)"
proof -
  have ref: "Reference (Source (env_Spec noref_prod)) = None"
    by (simp add: noref_prod_def)
  have head: "heads example_cloned [''tmp'', ''target'']
                = Some ''0b7d3e6a9c2f4e1d8a5b6c7d8e9f0a1b2c3d4e5f''"
    by (simp add: example_cloned_def)
  have fresh: "\<forall>i x. Worktree_Commit example_world i = Inr x \<longrightarrow>
                 x \<noteq> ''0b7d3e6a9c2f4e1d8a5b6c7d8e9f0a1b2c3d4e5f''"
    by (simp add: example_world_sel)
  have n: "LastPullRequestNumber (Status (obj example_cloned)) = 5"
    "LastPullRequestURL (Status (obj example_cloned)) = ''https://github.com/acme/overlay-prod/pull/5''"
    by (simp_all add: example_cloned_def example_promotion_def)
  have b: "GetBranch noref_prod = ''master''"
    by (simp add: GetBranch_def noref_prod_def DefaultBranch_def)
  have t: "heads (example_cloned\<lparr>heads := (heads example_cloned)
             ([''tmp'', ''target''] := Some ''e5d4c3b2a1908f7e6d5c4b3a29180f7e6d5c4b3a'')\<rparr>)
             [''tmp'', ''target''] = Some ''e5d4c3b2a1908f7e6d5c4b3a29180f7e6d5c4b3a'' \<and>
           ''e5d4c3b2a1908f7e6d5c4b3a29180f7e6d5c4b3a'' \<noteq> ''0b7d3e6a9c2f4e1d8a5b6c7d8e9f0a1b2c3d4e5f'' \<and>
           fault example_world Head_after = None"
    by (simp add: example_world_sel)
  have e: "fst (promote example_world example_dev noref_prod [''tmp'', ''source'']
                  [''tmp'', ''target''] example_cloned) = Inl NilDereference"
    "filter change_event
     (new_events example_cloned
        (snd (promote example_world example_dev noref_prod [''tmp'', ''source'']
                [''tmp'', ''target''] example_cloned)))
     = [WtCommit (commit_message ''Kustomization File'' ''dev'' ''prod'' ''4f2a9c1''),
        GitPush ''git@github.com:acme/overlay-prod'']"
    using eval_promote_without_ref
    by (cases "promote example_world example_dev noref_prod [''tmp'', ''source'']
                 [''tmp'', ''target''] example_cloned"; simp)+
  have run: "promote example_world example_dev noref_prod [''tmp'', ''source'']
               [''tmp'', ''target''] example_cloned
             = (Inl NilDereference,
                snd (promote example_world example_dev noref_prod [''tmp'', ''source'']
                       [''tmp'', ''target''] example_cloned))"
    using e(1)
    by (cases "promote example_world example_dev noref_prod [''tmp'', ''source'']
                 [''tmp'', ''target''] example_cloned") simp
  note bug = promote_without_ref [OF run ref example_list example_closed head fresh]
  from bug[THEN conjunct1, rule_format, OF t] bug[THEN conjunct2] b e n
  show ?thesis by simp
qed

section \<open>Path confinement\<close>








end
